theory Spec2Isabelle
  imports Complex_Main "HOL-Library.AList" "HOL-Library.Multiset" "HOL-Library.Sublist"
    "HOL-Library.Log_Nat"
begin

section \<open>JavaScript numbers\<close>

text \<open>
  A JavaScript number is modelled as a real number or one of the three special values.
  \<open>Finite x\<close> stands for the double nearest to \<open>x\<close>: a double is written as a decimal that
  denotes it. The arithmetic below is exact on these decimals: rounding, overflow to an
  infinity and the sign of zero are not modelled in it. Where the outcome of a
  computation is discrete and turns on the last bit, in the box test of
  \<open>calcularDistancia\<close>, the operands are the doubles themselves and the subtraction
  rounds (subsection Doubles).
\<close>

datatype jsnum = NaN | PInf | NInf | Finite real

fun jsub :: "jsnum \<Rightarrow> jsnum \<Rightarrow> jsnum" where
  "jsub (Finite x) (Finite y) = Finite (x - y)"
| "jsub NaN _ = NaN"
| "jsub _ NaN = NaN"
| "jsub PInf PInf = NaN"
| "jsub NInf NInf = NaN"
| "jsub PInf _ = PInf"
| "jsub NInf _ = NInf"
| "jsub _ PInf = NInf"
| "jsub _ NInf = PInf"

fun jadd :: "jsnum \<Rightarrow> jsnum \<Rightarrow> jsnum" where
  "jadd (Finite x) (Finite y) = Finite (x + y)"
| "jadd NaN _ = NaN"
| "jadd _ NaN = NaN"
| "jadd PInf NInf = NaN"
| "jadd NInf PInf = NaN"
| "jadd PInf _ = PInf"
| "jadd NInf _ = NInf"
| "jadd _ PInf = PInf"
| "jadd _ NInf = NInf"

fun jmul :: "jsnum \<Rightarrow> jsnum \<Rightarrow> jsnum" where
  "jmul (Finite x) (Finite y) = Finite (x * y)"
| "jmul NaN _ = NaN"
| "jmul _ NaN = NaN"
| "jmul PInf PInf = PInf"
| "jmul PInf NInf = NInf"
| "jmul NInf PInf = NInf"
| "jmul NInf NInf = PInf"
| "jmul PInf (Finite y) = (if y = 0 then NaN else if 0 < y then PInf else NInf)"
| "jmul NInf (Finite y) = (if y = 0 then NaN else if 0 < y then NInf else PInf)"
| "jmul (Finite x) PInf = (if x = 0 then NaN else if 0 < x then PInf else NInf)"
| "jmul (Finite x) NInf = (if x = 0 then NaN else if 0 < x then NInf else PInf)"

text \<open>Division; a zero divisor is taken as \<open>+0\<close>.\<close>

fun jdiv :: "jsnum \<Rightarrow> jsnum \<Rightarrow> jsnum" where
  "jdiv (Finite x) (Finite y) =
     (if y = 0 then (if x = 0 then NaN else if 0 < x then PInf else NInf)
      else Finite (x / y))"
| "jdiv NaN _ = NaN"
| "jdiv _ NaN = NaN"
| "jdiv (Finite x) _ = Finite 0"
| "jdiv PInf (Finite y) = (if 0 \<le> y then PInf else NInf)"
| "jdiv NInf (Finite y) = (if 0 \<le> y then NInf else PInf)"
| "jdiv _ _ = NaN"

text \<open>The comparisons \<open><\<close>, \<open>>\<close> and \<open><=\<close>: false as soon as an operand is \<open>NaN\<close>.\<close>

fun jlt :: "jsnum \<Rightarrow> jsnum \<Rightarrow> bool" where
  "jlt (Finite x) (Finite y) = (x < y)"
| "jlt NaN _ = False"
| "jlt _ NaN = False"
| "jlt PInf _ = False"
| "jlt _ NInf = False"
| "jlt _ _ = True"

definition jgt :: "jsnum \<Rightarrow> jsnum \<Rightarrow> bool" where
  "jgt a b = jlt b a"

fun jle :: "jsnum \<Rightarrow> jsnum \<Rightarrow> bool" where
  "jle (Finite x) (Finite y) = (x \<le> y)"
| "jle NaN _ = False"
| "jle _ NaN = False"
| "jle NInf _ = True"
| "jle _ PInf = True"
| "jle _ _ = False"

fun jabs :: "jsnum \<Rightarrow> jsnum" where
  "jabs (Finite x) = Finite \<bar>x\<bar>"
| "jabs NaN = NaN"
| "jabs _ = PInf"

fun jsin :: "jsnum \<Rightarrow> jsnum" where
  "jsin (Finite x) = Finite (sin x)"
| "jsin _ = NaN"

fun jcos :: "jsnum \<Rightarrow> jsnum" where
  "jcos (Finite x) = Finite (cos x)"
| "jcos _ = NaN"

fun jsqrt :: "jsnum \<Rightarrow> jsnum" where
  "jsqrt (Finite x) = (if x < 0 then NaN else Finite (sqrt x))"
| "jsqrt PInf = PInf"
| "jsqrt _ = NaN"

text \<open>\<open>Math.atan2(y, x)\<close>, the angle of the point \<open>(x, y)\<close> in \<open>(-\<pi>, \<pi>]\<close>.\<close>

fun jatan2 :: "jsnum \<Rightarrow> jsnum \<Rightarrow> jsnum" where
  "jatan2 (Finite y) (Finite x) =
     Finite (if 0 < x then arctan (y / x)
             else if x < 0 then (if 0 \<le> y then arctan (y / x) + pi else arctan (y / x) - pi)
             else if 0 < y then pi / 2 else if y < 0 then - (pi / 2) else 0)"
| "jatan2 NaN _ = NaN"
| "jatan2 _ NaN = NaN"
| "jatan2 (Finite y) PInf = Finite 0"
| "jatan2 (Finite y) NInf = Finite (if 0 \<le> y then pi else - pi)"
| "jatan2 PInf (Finite x) = Finite (pi / 2)"
| "jatan2 NInf (Finite x) = Finite (- (pi / 2))"
| "jatan2 PInf PInf = Finite (pi / 4)"
| "jatan2 PInf NInf = Finite (3 * pi / 4)"
| "jatan2 NInf PInf = Finite (- (pi / 4))"
| "jatan2 NInf NInf = Finite (- (3 * pi / 4))"

text \<open>\<open>x || 0\<close> on a number: \<open>NaN\<close> and zero are falsy.\<close>

fun orZero :: "jsnum \<Rightarrow> jsnum" where
  "orZero NaN = Finite 0"
| "orZero x = x"

text \<open>Truncation towards zero (\<open>ToIntegerOrInfinity\<close> on a finite number).\<close>

definition truncToInt :: "real \<Rightarrow> int" where
  "truncToInt x = (if 0 \<le> x then \<lfloor>x\<rfloor> else \<lceil>x\<rceil>)"

subsection \<open>Doubles\<close>

text \<open>
  The double nearest to a real number (IEEE 754 binary64, round to nearest, ties to the
  even significand). \<open>binade x\<close> is the exponent \<open>e\<close> with \<open>2 ^ e \<le> \<bar>x\<bar> < 2 ^ (e + 1)\<close>; the
  doubles of that binade are the multiples of \<open>2 ^ (e - 52)\<close>. The range of the exponent
  is not modelled: no overflow and no subnormal numbers.
\<close>

definition roundEven :: "real \<Rightarrow> int" where
  "roundEven q =
     (let f = \<lfloor>q\<rfloor>; r = q - real_of_int f
      in if r < 1 / 2 then f else if 1 / 2 < r then f + 1 else if even f then f else f + 1)"

definition binade :: "real \<Rightarrow> int" where
  "binade x = (if 1 \<le> \<bar>x\<bar> then bitlen \<lfloor>\<bar>x\<bar>\<rfloor> - 1 else - bitlen (\<lceil>1 / \<bar>x\<bar>\<rceil> - 1))"

definition dbl :: "real \<Rightarrow> real" where
  "dbl x = (if x = 0 then 0
            else (let ulp = 2 powi (binade x - 52) in real_of_int (roundEven (x / ulp)) * ulp))"

text \<open>The number as the machine holds it, and \<open>a - b\<close> as the machine computes it.\<close>

fun asDouble :: "jsnum \<Rightarrow> jsnum" where
  "asDouble (Finite x) = Finite (dbl x)"
| "asDouble v = v"

definition jsubD :: "jsnum \<Rightarrow> jsnum \<Rightarrow> jsnum" where
  "jsubD a b = asDouble (jsub (asDouble a) (asDouble b))"

section \<open>Strings\<close>

text \<open>
  Strings are lists of 8-bit characters. White space is the ASCII white space; letters
  with a case are the ASCII letters.
\<close>

definition isWhite :: "char \<Rightarrow> bool" where
  "isWhite c = (c = CHR '' '' \<or> c = CHR 0x09 \<or> c = CHR 0x0A \<or> c = CHR 0x0B \<or>
                c = CHR 0x0C \<or> c = CHR 0x0D)"

definition trimStart :: "string \<Rightarrow> string" where
  "trimStart s = dropWhile isWhite s"

definition trim :: "string \<Rightarrow> string" where
  "trim s = rev (dropWhile isWhite (rev (dropWhile isWhite s)))"

definition lowerChar :: "char \<Rightarrow> char" where
  "lowerChar c =
     (let n = (of_char c :: nat) in if 65 \<le> n \<and> n \<le> 90 then char_of (n + 32) else c)"

definition toLowerCase :: "string \<Rightarrow> string" where
  "toLowerCase s = map lowerChar s"

text \<open>\<open>s.replace(a, b)\<close> for one-character strings: the first occurrence only.\<close>

fun replaceFirst :: "char \<Rightarrow> char \<Rightarrow> string \<Rightarrow> string" where
  "replaceFirst a b [] = []"
| "replaceFirst a b (c # cs) = (if c = a then b # cs else c # replaceFirst a b cs)"

text \<open>\<open>hay.includes(needle)\<close>: \<open>needle\<close> occurs in \<open>hay\<close> as a contiguous block.\<close>

fun includesStr :: "string \<Rightarrow> string \<Rightarrow> bool" where
  "includesStr [] needle = (needle = [])"
| "includesStr (c # cs) needle = (prefix needle (c # cs) \<or> includesStr cs needle)"

subsection \<open>Digits\<close>

definition isDigit :: "char \<Rightarrow> bool" where
  "isDigit c = (48 \<le> (of_char c :: nat) \<and> (of_char c :: nat) \<le> 57)"

text \<open>The value of a character as a digit of any radix up to 36, if it is one.\<close>

definition digitOf :: "char \<Rightarrow> nat option" where
  "digitOf c =
     (let n = (of_char c :: nat) in
      if 48 \<le> n \<and> n \<le> 57 then Some (n - 48)
      else if 97 \<le> n \<and> n \<le> 122 then Some (n - 87)
      else if 65 \<le> n \<and> n \<le> 90 then Some (n - 55)
      else None)"

definition isRadixDigit :: "nat \<Rightarrow> char \<Rightarrow> bool" where
  "isRadixDigit r c = (case digitOf c of None \<Rightarrow> False | Some d \<Rightarrow> d < r)"

definition digitVal :: "char \<Rightarrow> nat" where
  "digitVal c = (case digitOf c of None \<Rightarrow> 0 | Some d \<Rightarrow> d)"

text \<open>The integer that a string of digits denotes in radix \<open>r\<close>.\<close>

definition radixInt :: "nat \<Rightarrow> string \<Rightarrow> int" where
  "radixInt r ds = foldl (\<lambda>n c. int r * n + int (digitVal c)) 0 ds"

definition digitsInt :: "string \<Rightarrow> int" where
  "digitsInt ds = radixInt 10 ds"

subsection \<open>Numeric literals\<close>

text \<open>An optional sign in front of a literal: whether it is a minus, and the rest.\<close>

fun splitSign :: "string \<Rightarrow> bool \<times> string" where
  "splitSign [] = (False, [])"
| "splitSign (c # cs) =
     (if c = CHR ''-'' then (True, cs) else if c = CHR ''+'' then (False, cs)
      else (False, c # cs))"

text \<open>
  The exponent part of a decimal literal, \<open>e\<close> or \<open>E\<close>, an optional sign and at least one
  digit: its value and what follows it. Anything else is no exponent and is left unread.
\<close>

fun scanExponent :: "string \<Rightarrow> int \<times> string" where
  "scanExponent [] = (0, [])"
| "scanExponent (c # cs) =
     (if c = CHR ''e'' \<or> c = CHR ''E'' then
        (let (neg, ds) = splitSign cs; e = takeWhile isDigit ds in
         if e = [] then (0, c # cs)
         else ((if neg then - digitsInt e else digitsInt e), dropWhile isDigit ds))
      else (0, c # cs))"

definition scale10 :: "real \<Rightarrow> int \<Rightarrow> real" where
  "scale10 m e = (if 0 \<le> e then m * 10 ^ nat e else m / 10 ^ nat (- e))"

text \<open>
  The longest prefix that is a \<open>StrDecimalLiteral\<close> (an optional sign, then \<open>Infinity\<close> or
  digits with an optional fraction and exponent): its value, \<open>NaN\<close> when there is no such
  prefix, and the unread rest.
\<close>

definition scanDecimal :: "string \<Rightarrow> jsnum \<times> string" where
  "scanDecimal s =
     (let (neg, s2) = splitSign s in
      if prefix ''Infinity'' s2 then ((if neg then NInf else PInf), drop 8 s2)
      else
        (let ip = takeWhile isDigit s2;
             r1 = dropWhile isDigit s2;
             (fp, r2) = (case r1 of
                 [] \<Rightarrow> ([], [])
               | c # cs \<Rightarrow> if c = CHR ''.'' then (takeWhile isDigit cs, dropWhile isDigit cs)
                           else ([], r1))
         in if ip = [] \<and> fp = [] then (NaN, s)
            else
              (let m = real_of_int (digitsInt ip) + real_of_int (digitsInt fp) / 10 ^ length fp;
                   (e, r3) = scanExponent r2
               in (Finite (scale10 (if neg then - m else m) e), r3))))"

text \<open>\<open>parseFloat\<close> on a string: leading white space is skipped, trailing text ignored.\<close>

definition parseFloatStr :: "string \<Rightarrow> jsnum" where
  "parseFloatStr s = fst (scanDecimal (trimStart s))"

text \<open>
  \<open>parseInt\<close> on a string with no radix argument: radix 10, or 16 after a \<open>0x\<close> prefix.
\<close>

definition parseIntStr :: "string \<Rightarrow> jsnum" where
  "parseIntStr s =
     (let (neg, s2) = splitSign (trimStart s);
          (r, s3) = (if prefix ''0x'' s2 \<or> prefix ''0X'' s2 then (16, drop 2 s2) else (10, s2));
          z = takeWhile (isRadixDigit r) s3
      in if z = [] then NaN
         else Finite (real_of_int (if neg then - radixInt r z else radixInt r z)))"

text \<open>
  \<open>Number(s)\<close> on a string (\<open>StringToNumber\<close>): the whole trimmed string must be a numeric
  literal; the empty string is 0.
\<close>

definition nonDecimal :: "nat \<Rightarrow> string \<Rightarrow> jsnum" where
  "nonDecimal r ds =
     (if ds \<noteq> [] \<and> list_all (isRadixDigit r) ds then Finite (real_of_int (radixInt r ds)) else NaN)"

definition stringToNumber :: "string \<Rightarrow> jsnum" where
  "stringToNumber s =
     (let t = trim s in
      if t = [] then Finite 0
      else if prefix ''0x'' t \<or> prefix ''0X'' t then nonDecimal 16 (drop 2 t)
      else if prefix ''0o'' t \<or> prefix ''0O'' t then nonDecimal 8 (drop 2 t)
      else if prefix ''0b'' t \<or> prefix ''0B'' t then nonDecimal 2 (drop 2 t)
      else (case scanDecimal t of (v, []) \<Rightarrow> v | (v, _ # _) \<Rightarrow> NaN))"

section \<open>JavaScript values and the engine's built-ins\<close>

text \<open>
  The values that a field of a record of the feed holds: \<open>JUndefined\<close> is what reading a
  missing field gives. Nested arrays and objects inside a record are not modelled.
\<close>

datatype jsval = JUndefined | JNull | JBool bool | JNum jsnum | JStr string

text \<open>
  Built-ins of the JavaScript engine that the model leaves open: \<open>Number.prototype.toString\<close>
  and \<open>toFixed\<close> on a finite number, \<open>Date.prototype.toISOString\<close> on a valid time value
  (milliseconds since the epoch) and \<open>Date.parse\<close>.
\<close>

record engine =
  numToString :: "real \<Rightarrow> string"
  toFixed :: "nat \<Rightarrow> real \<Rightarrow> string"
  toISOString :: "int \<Rightarrow> string"
  dateParse :: "string \<Rightarrow> jsnum"

fun truthy :: "jsval \<Rightarrow> bool" where
  "truthy JUndefined = False"
| "truthy JNull = False"
| "truthy (JBool b) = b"
| "truthy (JNum NaN) = False"
| "truthy (JNum (Finite x)) = (x \<noteq> 0)"
| "truthy (JNum _) = True"
| "truthy (JStr s) = (s \<noteq> [])"

fun toStringJS :: "engine \<Rightarrow> jsval \<Rightarrow> string" where
  "toStringJS E (JStr s) = s"
| "toStringJS E JUndefined = ''undefined''"
| "toStringJS E JNull = ''null''"
| "toStringJS E (JBool b) = (if b then ''true'' else ''false'')"
| "toStringJS E (JNum NaN) = ''NaN''"
| "toStringJS E (JNum PInf) = ''Infinity''"
| "toStringJS E (JNum NInf) = ''-Infinity''"
| "toStringJS E (JNum (Finite x)) = numToString E x"

fun toNumber :: "jsval \<Rightarrow> jsnum" where
  "toNumber JUndefined = NaN"
| "toNumber JNull = Finite 0"
| "toNumber (JBool b) = Finite (if b then 1 else 0)"
| "toNumber (JNum x) = x"
| "toNumber (JStr s) = stringToNumber s"

text \<open>
  \<open>parseFloat(v)\<close> converts \<open>v\<close> to a string and reads a decimal literal off its front. A
  number is printed with the digits that denote it, so it reads back as itself; the strings
  \<open>undefined\<close>, \<open>null\<close>, \<open>true\<close> and \<open>false\<close> start with no literal.
\<close>

fun parseFloat :: "jsval \<Rightarrow> jsnum" where
  "parseFloat (JStr s) = parseFloatStr s"
| "parseFloat (JNum x) = x"
| "parseFloat _ = NaN"

definition parseInt :: "engine \<Rightarrow> jsval \<Rightarrow> jsnum" where
  "parseInt E v = parseIntStr (toStringJS E v)"

subsection \<open>Dates\<close>

text \<open>
  A \<open>Date\<close> is its time value: an integral number of milliseconds, or \<open>NaN\<close> for an invalid
  date. \<open>timeClip\<close> is the clipping every \<open>Date\<close> constructor applies.
\<close>

fun timeClip :: "jsnum \<Rightarrow> jsnum" where
  "timeClip (Finite x) =
     (if 8640000000000000 < \<bar>x\<bar> then NaN else Finite (real_of_int (truncToInt x)))"
| "timeClip _ = NaN"

text \<open>\<open>new Date(v)\<close>: a string is parsed, any other value is converted to a number.\<close>

fun newDate :: "engine \<Rightarrow> jsval \<Rightarrow> jsnum" where
  "newDate E (JStr s) = dateParse E s"
| "newDate E v = timeClip (toNumber v)"

text \<open>\<open>d.toISOString()\<close>; \<open>None\<close> is the \<open>RangeError\<close> thrown on an invalid date.\<close>

fun isoString :: "engine \<Rightarrow> jsnum \<Rightarrow> string option" where
  "isoString E (Finite t) = Some (toISOString E \<lfloor>t\<rfloor>)"
| "isoString E _ = None"

section \<open>Records of the feed\<close>

text \<open>
  A record is a JSON object: its fields in order, each name once. \<open>field b k\<close> is the
  property access \<open>b.k\<close>.
\<close>

type_synonym bus = "(string \<times> jsval) list"

definition field :: "bus \<Rightarrow> string \<Rightarrow> jsval" where
  "field b k = (case map_of b k of None \<Rightarrow> JUndefined | Some v \<Rightarrow> v)"

subsection \<open>normalizeBusData\<close>

text \<open>
  \<open>parseFloat(v?.replace(',', '.')) || 0\<close>. The optional chain gives \<open>undefined\<close> on
  \<open>undefined\<close> and \<open>null\<close>; a number or a boolean has no \<open>replace\<close> method and the call
  throws a \<open>TypeError\<close>, which is \<open>None\<close> here.
\<close>

fun coordinate :: "jsval \<Rightarrow> jsnum option" where
  "coordinate JUndefined = Some (orZero (parseFloat JUndefined))"
| "coordinate JNull = Some (orZero (parseFloat JUndefined))"
| "coordinate (JStr s) = Some (orZero (parseFloat (JStr (replaceFirst CHR '','' CHR ''.'' s))))"
| "coordinate _ = None"

text \<open>
  The object literal is evaluated field by field inside the \<open>try\<close>; the first exception
  leaves through the \<open>catch\<close>, which returns the record it was given. Spreading \<open>rest\<close> and
  then naming a field overwrites the field in place or appends it.
\<close>

definition normalizeBusData :: "engine \<Rightarrow> bus \<Rightarrow> bus" where
  "normalizeBusData E bus =
     (let rest = AList.delete ''datahora'' bus in
      case coordinate (field bus ''latitude'') of
        None \<Rightarrow> bus
      | Some la \<Rightarrow>
     (case coordinate (field bus ''longitude'') of
        None \<Rightarrow> bus
      | Some lo \<Rightarrow>
     (case isoString E (timeClip (parseInt E (field bus ''datahora''))) of
        None \<Rightarrow> bus
      | Some dh \<Rightarrow>
          AList.update ''velocidade'' (JNum (orZero (parseFloat (field bus ''velocidade''))))
            (AList.update ''dataHora'' (JStr dh)
              (AList.update ''longitude'' (JNum lo)
                (AList.update ''latitude'' (JNum la) rest))))))"

section \<open>The cache service\<close>

text \<open>
  Modelled from the spec: the three stores are instances of the \<open>node-cache\<close> package,
  which is not part of the sources. An entry is a value with the instant at which it
  expires; a read returns it only before that instant (an entry is never returned once
  \<open>now \<ge> insertedAt + ttl\<close>). Expired entries stay in the store until they are overwritten
  or deleted. The ceiling on the number of keys is \<open>maxKeys: 1000\<close> of \<open>cacheConfig\<close>; a
  write to a store that holds that many keys is rejected with an exception (\<open>None\<close>), which
  is what the package does.
\<close>

record entry =
  content :: "bus list"
  expires :: int

type_synonym cache = "(string \<times> entry) list"

definition maxKeys :: nat where
  "maxKeys = 1000"

definition cacheGet :: "cache \<Rightarrow> int \<Rightarrow> string \<Rightarrow> bus list option" where
  "cacheGet c now k =
     (case map_of c k of
        None \<Rightarrow> None
      | Some e \<Rightarrow> if now < expires e then Some (content e) else None)"

definition cacheSet :: "cache \<Rightarrow> int \<Rightarrow> string \<Rightarrow> bus list \<Rightarrow> int \<Rightarrow> cache option" where
  "cacheSet c now k v ttl =
     (if maxKeys \<le> length c then None
      else Some (AList.update k \<lparr>content = v, expires = now + ttl * 1000\<rparr> c))"

definition cacheDel :: "cache \<Rightarrow> string \<Rightarrow> cache" where
  "cacheDel c k = AList.delete k c"

text \<open>
  What the service object and the cache module hold between calls. The line index is a
  \<open>Map\<close>: its keys in insertion order, each with its bucket.
\<close>

type_synonym index = "(string \<times> bus list) list"

record state =
  generalCache :: cache
  lineCache :: cache
  positionCache :: cache
  lastFetchTime :: "int option"
  lineIndex :: index
  lastIndexUpdate :: "int option"

text \<open>The module as loaded: empty stores, \<open>null\<close> timestamps, an empty index.\<close>

definition initialState :: state where
  "initialState = \<lparr>generalCache = [], lineCache = [], positionCache = [],
     lastFetchTime = None, lineIndex = [], lastIndexUpdate = None\<rparr>"

text \<open>
  The methods of \<open>CacheService\<close>. A \<open>ttl\<close> that is \<open>null\<close> or zero selects the store's
  \<open>stdTTL\<close>: 300, 180 and 120 seconds.
\<close>

definition ttlOr :: "int \<Rightarrow> int option \<Rightarrow> int" where
  "ttlOr stdTTL ttl = (case ttl of None \<Rightarrow> stdTTL | Some t \<Rightarrow> if t = 0 then stdTTL else t)"

definition getGeneral :: "state \<Rightarrow> int \<Rightarrow> string \<Rightarrow> bus list option" where
  "getGeneral st now key = cacheGet (generalCache st) now key"

definition setGeneral :: "state \<Rightarrow> int \<Rightarrow> string \<Rightarrow> bus list \<Rightarrow> int option \<Rightarrow> state option" where
  "setGeneral st now key data ttl =
     map_option (\<lambda>c. st\<lparr>generalCache := c\<rparr>)
       (cacheSet (generalCache st) now key data (ttlOr 300 ttl))"

definition getLine :: "state \<Rightarrow> int \<Rightarrow> string \<Rightarrow> bus list option" where
  "getLine st now key = cacheGet (lineCache st) now key"

definition setLine :: "state \<Rightarrow> int \<Rightarrow> string \<Rightarrow> bus list \<Rightarrow> int option \<Rightarrow> state option" where
  "setLine st now key data ttl =
     map_option (\<lambda>c. st\<lparr>lineCache := c\<rparr>)
       (cacheSet (lineCache st) now key data (ttlOr 180 ttl))"

definition getPosition :: "state \<Rightarrow> int \<Rightarrow> string \<Rightarrow> bus list option" where
  "getPosition st now key = cacheGet (positionCache st) now key"

definition setPosition :: "state \<Rightarrow> int \<Rightarrow> string \<Rightarrow> bus list \<Rightarrow> int option \<Rightarrow> state option" where
  "setPosition st now key data ttl =
     map_option (\<lambda>c. st\<lparr>positionCache := c\<rparr>)
       (cacheSet (positionCache st) now key data (ttlOr 120 ttl))"

definition deleteGeneral :: "state \<Rightarrow> string \<Rightarrow> state" where
  "deleteGeneral st key = st\<lparr>generalCache := cacheDel (generalCache st) key\<rparr>"

definition clearAll :: "state \<Rightarrow> state" where
  "clearAll st = st\<lparr>generalCache := [], lineCache := [], positionCache := []\<rparr>"

section \<open>The bus data service\<close>

definition cacheKey :: string where
  "cacheKey = ''sppo_all_buses''"

definition staleKey :: string where
  "staleKey = cacheKey @ ''_stale''"

definition fetchInterval :: int where
  "fetchInterval = 300000"

text \<open>
  What the request to the feed comes back with: it fails (no connection, a timeout, an
  error status), or it delivers a body that is an array or something else. An element of
  an array is a record (a JSON object), \<open>null\<close>, or any other JSON value: a number, a
  string, a boolean or an array, none of which has a field that the service reads.
\<close>

datatype element = Record bus | Null | Other

datatype body = NotArray | Array "element list"

text \<open>The records among the elements of an array, in order.\<close>

fun records :: "element list \<Rightarrow> bus list" where
  "records [] = []"
| "records (Record bus # rest) = bus # records rest"
| "records (Null # rest) = records rest"
| "records (Other # rest) = records rest"

datatype upstream = Unreachable | Response body

datatype error = UpstreamError | CacheFull

subsection \<open>The active-vehicle test\<close>

text \<open>
  The test that \<open>getAllBusData\<close> applies to a normalized record and that the filter of
  \<open>getBusByPosition\<close> repeats: the vehicle moves, or its data is at most five minutes old.
  \<open>agora\<close> is the reading of the clock.
\<close>

definition emRota :: "engine \<Rightarrow> int \<Rightarrow> bus \<Rightarrow> bool" where
  "emRota E agora b =
     (let dataHoraBus = newDate E (field b ''dataHora'');
          diferencaMinutos = jdiv (jsub (Finite (real_of_int agora)) dataHoraBus) (Finite (1000 * 60));
          emMovimento = jgt (parseFloat (field b ''velocidade'')) (Finite 0);
          dadosRecentes = jle diferencaMinutos (Finite 5)
      in emMovimento \<or> dadosRecentes)"

text \<open>
  \<open>normalizeBusData\<close> on an element of the array. Destructuring \<open>null\<close> throws a
  \<open>TypeError\<close> inside the \<open>try\<close>, and the \<open>catch\<close> returns \<open>null\<close>. A value that is no
  object is treated as an object without the fields: its \<open>datahora\<close> reads \<open>undefined\<close>,
  \<open>toISOString\<close> throws on the invalid date, and the \<open>catch\<close> returns the value.
\<close>

fun normalizeElement :: "engine \<Rightarrow> element \<Rightarrow> element" where
  "normalizeElement E (Record bus) = Record (normalizeBusData E bus)"
| "normalizeElement E Null = Null"
| "normalizeElement E Other = Other"

text \<open>
  The single loop over \<open>response.data\<close>; the last argument is \<open>activeBuses\<close> so far. The
  loop reads \<open>normalized.dataHora\<close> outside any \<open>try\<close> of its own: on \<open>null\<close> the read
  throws a \<open>TypeError\<close>, which ends the loop (\<open>None\<close>). On a value without fields the date
  and the speed read \<open>undefined\<close>, the test fails as it fails on the empty record, and
  the value is not kept.
\<close>

fun activeLoop :: "engine \<Rightarrow> int \<Rightarrow> element list \<Rightarrow> bus list \<Rightarrow> bus list option" where
  "activeLoop E agora [] activeBuses = Some activeBuses"
| "activeLoop E agora (bus # rest) activeBuses =
     (case normalizeElement E bus of
        Null \<Rightarrow> None
      | Other \<Rightarrow> activeLoop E agora rest activeBuses
      | Record normalized \<Rightarrow>
          activeLoop E agora rest
            (if emRota E agora normalized then activeBuses @ [normalized] else activeBuses))"

subsection \<open>updateLineIndex\<close>

text \<open>\<open>bus.linha?.toString().trim().toLowerCase() || 'unknown'\<close>\<close>

definition lineKey :: "engine \<Rightarrow> bus \<Rightarrow> string" where
  "lineKey E bus =
     (case field bus ''linha'' of
        JUndefined \<Rightarrow> ''unknown''
      | JNull \<Rightarrow> ''unknown''
      | v \<Rightarrow> (let k = toLowerCase (trim (toStringJS E v)) in if k = [] then ''unknown'' else k))"

fun indexLoop :: "engine \<Rightarrow> bus list \<Rightarrow> index \<Rightarrow> index" where
  "indexLoop E [] idx = idx"
| "indexLoop E (bus # rest) idx =
     (let linha = lineKey E bus;
          idx1 = (if map_of idx linha = None then idx @ [(linha, [])] else idx)
      in indexLoop E rest (AList.map_entry linha (\<lambda>bucket. bucket @ [bus]) idx1))"

definition updateLineIndex :: "engine \<Rightarrow> state \<Rightarrow> int \<Rightarrow> bus list \<Rightarrow> state" where
  "updateLineIndex E st now buses =
     st\<lparr>lineIndex := indexLoop E buses [], lastIndexUpdate := Some now\<rparr>"

subsection \<open>getAllBusData\<close>

text \<open>
  A call is taken to happen at one instant \<open>now\<close>: every reading of the clock inside it
  gives \<open>now\<close>. \<open>tryFetch\<close> is the \<open>try\<close> block from the request on; \<open>None\<close> says that an
  exception left it, with the state as it was then.
\<close>

definition throttled :: "state \<Rightarrow> int \<Rightarrow> bool" where
  "throttled st now =
     (case lastFetchTime st of
        None \<Rightarrow> False
      | Some t \<Rightarrow> t \<noteq> 0 \<and> now - t < fetchInterval)"

definition tryFetch :: "engine \<Rightarrow> state \<Rightarrow> int \<Rightarrow> upstream \<Rightarrow> bus list option \<times> state" where
  "tryFetch E st now up =
     (case up of
        Unreachable \<Rightarrow> (None, st)
      | Response NotArray \<Rightarrow> (None, st)
      | Response (Array data) \<Rightarrow>
          (case activeLoop E now data [] of
             None \<Rightarrow> (None, st)
           | Some activeBuses \<Rightarrow>
          (case setGeneral st now cacheKey activeBuses (Some 300) of
             None \<Rightarrow> (None, st)
           | Some st1 \<Rightarrow>
          (case setGeneral st1 now staleKey activeBuses (Some 1800) of
             None \<Rightarrow> (None, st1)
           | Some st2 \<Rightarrow>
               (Some activeBuses,
                updateLineIndex E (st2\<lparr>lastFetchTime := Some now\<rparr>) now activeBuses)))))"

definition getAllBusData :: "engine \<Rightarrow> state \<Rightarrow> int \<Rightarrow> upstream \<Rightarrow> (error + bus list) \<times> state" where
  "getAllBusData E st now up =
     (case getGeneral st now cacheKey of
        Some cachedData \<Rightarrow> (Inr cachedData, st)
      | None \<Rightarrow>
     (case (if throttled st now then getGeneral st now staleKey else None) of
        Some staleData \<Rightarrow> (Inr staleData, st)
      | None \<Rightarrow>
     (case tryFetch E st now up of
        (Some activeBuses, st1) \<Rightarrow> (Inr activeBuses, st1)
      | (None, st1) \<Rightarrow>
          (case getGeneral st1 now staleKey of
             Some staleData \<Rightarrow> (Inr staleData, st1)
           | None \<Rightarrow> (Inl UpstreamError, st1)))))"

subsection \<open>getBusByLine\<close>

text \<open>The fallback loop over the entries of the index: containment either way.\<close>

fun matchLoop :: "string \<Rightarrow> index \<Rightarrow> bus list \<Rightarrow> bus list" where
  "matchLoop linhaFormatada [] filteredData = filteredData"
| "matchLoop linhaFormatada ((linhaKey, buses) # rest) filteredData =
     matchLoop linhaFormatada rest
       (if includesStr linhaKey linhaFormatada \<or> includesStr linhaFormatada linhaKey
        then filteredData @ buses else filteredData)"

definition lookupLine :: "index \<Rightarrow> string \<Rightarrow> bus list" where
  "lookupLine idx linhaFormatada =
     (case map_of idx linhaFormatada of
        Some buses \<Rightarrow> buses
      | None \<Rightarrow> matchLoop linhaFormatada idx [])"

text \<open>\<open>linha\<close> is the route parameter, a string.\<close>

definition lineCacheKey :: "string \<Rightarrow> string" where
  "lineCacheKey linha = ''line_active_'' @ linha"

definition getBusByLine ::
    "engine \<Rightarrow> state \<Rightarrow> int \<Rightarrow> upstream \<Rightarrow> string \<Rightarrow> (error + bus list) \<times> state" where
  "getBusByLine E st now up linha =
     (let key = lineCacheKey linha in
      case getLine st now key of
        Some cachedData \<Rightarrow> (Inr cachedData, st)
      | None \<Rightarrow>
          (let linhaFormatada = toLowerCase (trim linha);
               found =
                 (case map_of (lineIndex st) linhaFormatada of
                    Some buses \<Rightarrow> (Inr buses, st)
                  | None \<Rightarrow>
                      (let filteredData = matchLoop linhaFormatada (lineIndex st) [] in
                       if filteredData = [] then
                         (case getAllBusData E st now up of
                            (Inl e, st1) \<Rightarrow> (Inl e, st1)
                          | (Inr allData, st1) \<Rightarrow>
                              (Inr (lookupLine (lineIndex st1) linhaFormatada), st1))
                       else (Inr filteredData, st)))
           in case found of
                (Inl e, st1) \<Rightarrow> (Inl e, st1)
              | (Inr filteredData, st1) \<Rightarrow>
                  (case setLine st1 now key filteredData (Some 120) of
                     None \<Rightarrow> (Inl CacheFull, st1)
                   | Some st2 \<Rightarrow> (Inr filteredData, st2))))"

subsection \<open>calcularDistancia and getBusByPosition\<close>

definition deg2rad :: real where
  "deg2rad = 0.017453292519943295"

text \<open>
  The box test is decided as the machine decides it: \<open>maxLatDiff\<close> and \<open>maxLonDiff\<close> are
  the double that the literal \<open>0.1\<close> denotes, the differences are those of the doubles,
  rounded, and the comparison of two doubles is exact. The formula below the test is
  taken over the reals: the rounding of its operations, and the error of \<open>Math.sin\<close>,
  \<open>Math.cos\<close>, \<open>Math.sqrt\<close> and \<open>Math.atan2\<close>, are not modelled.
\<close>

definition calcularDistancia :: "jsnum \<Rightarrow> jsnum \<Rightarrow> jsnum \<Rightarrow> jsnum \<Rightarrow> jsnum" where
  "calcularDistancia lat1 lon1 lat2 lon2 =
     (let maxLatDiff = asDouble (Finite 0.1);
          maxLonDiff = asDouble (Finite 0.1)
      in if jgt (jabs (jsubD lat2 lat1)) maxLatDiff \<or> jgt (jabs (jsubD lon2 lon1)) maxLonDiff
         then PInf
         else
           (let R = Finite 6371;
                dLat = jmul (jsub lat2 lat1) (Finite deg2rad);
                dLon = jmul (jsub lon2 lon1) (Finite deg2rad);
                a = jadd
                      (jmul (jsin (jdiv dLat (Finite 2))) (jsin (jdiv dLat (Finite 2))))
                      (jmul
                        (jmul
                          (jmul (jcos (jmul lat1 (Finite deg2rad))) (jcos (jmul lat2 (Finite deg2rad))))
                          (jsin (jdiv dLon (Finite 2))))
                        (jsin (jdiv dLon (Finite 2))))
            in jmul (jmul R (Finite 2)) (jatan2 (jsqrt a) (jsqrt (jsub (Finite 1) a)))))"

text \<open>
  The callback of the filter. The coordinates of the record reach \<open>calcularDistancia\<close> as
  they are and enter its arithmetic only, which converts them to numbers first. The
  callback reads the clock for each record; all its readings within one call are \<open>agora\<close>.
\<close>

definition dentroDoRaioEmRota :: "engine \<Rightarrow> int \<Rightarrow> jsnum \<Rightarrow> jsnum \<Rightarrow> jsnum \<Rightarrow> bus \<Rightarrow> bool" where
  "dentroDoRaioEmRota E agora lat lon raioKm bus =
     (if \<not> truthy (field bus ''latitude'') \<or> \<not> truthy (field bus ''longitude'') then False
      else
        (let distancia = calcularDistancia lat lon
               (toNumber (field bus ''latitude'')) (toNumber (field bus ''longitude''));
             dentroDoRaio = jle distancia raioKm
         in if \<not> dentroDoRaio then False else emRota E agora bus))"

fun fixed4 :: "engine \<Rightarrow> jsnum \<Rightarrow> string" where
  "fixed4 E (Finite x) = toFixed E 4 x"
| "fixed4 E v = toStringJS E (JNum v)"

definition positionCacheKey :: "engine \<Rightarrow> jsnum \<Rightarrow> jsnum \<Rightarrow> jsnum \<Rightarrow> string" where
  "positionCacheKey E lat lon raioKm =
     ''position_'' @ fixed4 E lat @ ''_'' @ fixed4 E lon @ ''_'' @ toStringJS E (JNum raioKm)"

definition getBusByPosition ::
    "engine \<Rightarrow> state \<Rightarrow> int \<Rightarrow> upstream \<Rightarrow> jsnum \<Rightarrow> jsnum \<Rightarrow> jsnum \<Rightarrow> (error + bus list) \<times> state" where
  "getBusByPosition E st now up lat lon raioKm =
     (let key = positionCacheKey E lat lon raioKm in
      case getPosition st now key of
        Some cachedData \<Rightarrow> (Inr cachedData, st)
      | None \<Rightarrow>
          (case getAllBusData E st now up of
             (Inl e, st1) \<Rightarrow> (Inl e, st1)
           | (Inr allData, st1) \<Rightarrow>
               (let filteredData = filter (dentroDoRaioEmRota E now lat lon raioKm) allData in
                case setPosition st1 now key filteredData (Some 120) of
                  None \<Rightarrow> (Inl CacheFull, st1)
                | Some st2 \<Rightarrow> (Inr filteredData, st2))))"

subsection \<open>clearCaches\<close>

definition clearCaches :: "state \<Rightarrow> state" where
  "clearCaches st =
     (deleteGeneral (deleteGeneral st cacheKey) staleKey)\<lparr>lineIndex := []\<rparr>"

section \<open>A reference engine\<close>

text \<open>
  An instance of the built-ins, written after ECMA-262, on which examples are evaluated.
  \<open>refToISOString\<close> is \<open>toISOString\<close> for every time value. \<open>refDateParse\<close> reads the
  format that \<open>toISOString\<close> writes and rejects every other string. \<open>refNumToString\<close> and
  \<open>refToFixed\<close> print in plain decimal notation, the former with at most twenty digits
  after the point.
\<close>

definition digitChar :: "int \<Rightarrow> char" where
  "digitChar d = char_of (48 + d)"

text \<open>The last \<open>w\<close> decimal digits of a non-negative integer.\<close>

definition padDigits :: "nat \<Rightarrow> int \<Rightarrow> string" where
  "padDigits w k = map (\<lambda>i. digitChar ((k div 10 ^ i) mod 10)) (rev [0..<w])"

function showInt :: "int \<Rightarrow> string" where
  "showInt k = (if k < 10 then [digitChar k] else showInt (k div 10) @ [digitChar (k mod 10)])"
  by pat_completeness auto
termination
  by (relation "measure nat") auto

text \<open>Year, month and day of the day that lies \<open>days\<close> days after 1 January 1970.\<close>

definition civilFromDays :: "int \<Rightarrow> int \<times> int \<times> int" where
  "civilFromDays days =
     (let z = days + 719468;
          era = z div 146097;
          doe = z mod 146097;
          yoe = (doe - doe div 1460 + doe div 36524 - doe div 146096) div 365;
          doy = doe - (365 * yoe + yoe div 4 - yoe div 100);
          mp = (5 * doy + 2) div 153;
          d = doy - (153 * mp + 2) div 5 + 1;
          m = (if mp < 10 then mp + 3 else mp - 9);
          y = yoe + era * 400
      in (if m \<le> 2 then y + 1 else y, m, d))"

definition daysFromCivil :: "int \<Rightarrow> int \<Rightarrow> int \<Rightarrow> int" where
  "daysFromCivil year m d =
     (let y = (if m \<le> 2 then year - 1 else year);
          era = y div 400;
          yoe = y mod 400;
          doy = (153 * (if 2 < m then m - 3 else m + 9) + 2) div 5 + d - 1;
          doe = yoe * 365 + yoe div 4 - yoe div 100 + doy
      in era * 146097 + doe - 719468)"

definition refToISOString :: "int \<Rightarrow> string" where
  "refToISOString t =
     (let ms = t mod 86400000;
          (y, m, d) = civilFromDays (t div 86400000);
          year = (if 0 \<le> y \<and> y \<le> 9999 then padDigits 4 y
                  else (if y < 0 then CHR ''-'' else CHR ''+'') # padDigits 6 \<bar>y\<bar>)
      in year @ ''-'' @ padDigits 2 m @ ''-'' @ padDigits 2 d @ ''T'' @
         padDigits 2 (ms div 3600000) @ '':'' @ padDigits 2 (ms div 60000 mod 60) @ '':'' @
         padDigits 2 (ms div 1000 mod 60) @ ''.'' @ padDigits 3 (ms mod 1000) @ ''Z'')"

definition daysInMonth :: "int \<Rightarrow> int \<Rightarrow> int" where
  "daysInMonth y m =
     (if m = 2 then (if y mod 4 = 0 \<and> (y mod 100 \<noteq> 0 \<or> y mod 400 = 0) then 29 else 28)
      else if m = 4 \<or> m = 6 \<or> m = 9 \<or> m = 11 then 30 else 31)"

definition refDateParse :: "string \<Rightarrow> jsnum" where
  "refDateParse s =
     (let (sgn, w, r) =
            (case s of
               [] \<Rightarrow> (1, 4, [])
             | c # cs \<Rightarrow> if c = CHR ''+'' then (1, 6, cs)
                         else if c = CHR ''-'' then (- 1, 6, cs) else (1 :: int, 4 :: nat, s));
          ys = take w r;
          t = drop w r;
          num = (\<lambda>i n. digitsInt (take n (drop i t)))
      in if length ys = w \<and> length t = 20 \<and> list_all isDigit ys \<and>
            map (\<lambda>i. t ! i) [0, 3, 6, 9, 12, 15, 19] = ''--T::.Z'' \<and>
            list_all (\<lambda>i. isDigit (t ! i)) [1, 2, 4, 5, 7, 8, 10, 11, 13, 14, 16, 17, 18]
         then
           (let y = sgn * digitsInt ys; m = num 1 2; d = num 4 2; h = num 7 2;
                mi = num 10 2; sec = num 13 2; ms = num 16 3
            in if 1 \<le> m \<and> m \<le> 12 \<and> 1 \<le> d \<and> d \<le> daysInMonth y m \<and> h < 24 \<and> mi < 60 \<and>
                  sec < 60
               then timeClip (Finite (real_of_int
                      (daysFromCivil y m d * 86400000 + h * 3600000 + mi * 60000 +
                       sec * 1000 + ms)))
               else NaN)
         else NaN)"

definition stripZeros :: "string \<Rightarrow> string" where
  "stripZeros ds = rev (dropWhile (\<lambda>c. c = CHR ''0'') (rev ds))"

definition refNumToString :: "real \<Rightarrow> string" where
  "refNumToString x =
     (let a = \<bar>x\<bar>;
          ip = \<lfloor>a\<rfloor>;
          fr = stripZeros (padDigits 20 \<lfloor>(a - real_of_int ip) * 10 ^ 20\<rfloor>)
      in (if x < 0 then ''-'' else []) @ showInt ip @ (if fr = [] then [] else ''.'' @ fr))"

definition refToFixed :: "nat \<Rightarrow> real \<Rightarrow> string" where
  "refToFixed f x =
     (let n = \<lfloor>\<bar>x\<bar> * 10 ^ f + 1 / 2\<rfloor> in
      (if x < 0 then ''-'' else []) @ showInt (n div 10 ^ f) @
      (if f = 0 then [] else ''.'' @ padDigits f (n mod 10 ^ f)))"

definition refEngine :: engine where
  "refEngine = \<lparr>numToString = refNumToString, toFixed = refToFixed,
     toISOString = refToISOString, dateParse = refDateParse\<rparr>"

section \<open>The haversine distance as the specification words it\<close>

text \<open>
  The haversine formula: the great-circle distance in kilometres between two points given
  in degrees, on a sphere of radius 6371 km. A degree is \<open>\<pi> / 180\<close> radians.
\<close>

definition haversineKm :: "real \<Rightarrow> real \<Rightarrow> real \<Rightarrow> real \<Rightarrow> real" where
  "haversineKm lat1 lon1 lat2 lon2 =
     (let phi1 = lat1 * (pi / 180);
          phi2 = lat2 * (pi / 180);
          dphi = (lat2 - lat1) * (pi / 180);
          dlam = (lon2 - lon1) * (pi / 180);
          h = (sin (dphi / 2))\<^sup>2 + cos phi1 * cos phi2 * (sin (dlam / 2))\<^sup>2
      in 2 * 6371 * arcsin (sqrt h))"

text \<open>
  The factor of the code against the true one: multiplying a coordinate by \<open>deg2rad\<close> is
  converting \<open>degScale\<close> times the coordinate.
\<close>

definition degScale :: real where
  "degScale = deg2rad * 180 / pi"

section \<open>Comma-decimal numerals\<close>




section \<open>Records for the examples\<close>

text \<open>A record as the feed delivers it: every field is a string.\<close>

definition feedRecord :: "string \<Rightarrow> string \<Rightarrow> string \<Rightarrow> string \<Rightarrow> string \<Rightarrow> bus" where
  "feedRecord lat lon ts vel linha =
     [(''ordem'', JStr ''A41005''), (''latitude'', JStr lat), (''longitude'', JStr lon),
      (''datahora'', JStr ts), (''velocidade'', JStr vel), (''linha'', JStr linha)]"

section \<open>The general store in the states that the service reaches\<close>

text \<open>
  Only \<open>getAllBusData\<close> writes to the general store, under its two keys and both at once,
  and only \<open>clearCaches\<close> deletes from it, both keys at once. So the store holds no other
  key, and a fresh entry always comes with a stale snapshot that expires no earlier.
\<close>

definition generalInv :: "state \<Rightarrow> bool" where
  "generalInv st =
     (distinct (map fst (generalCache st)) \<and>
      list_all (\<lambda>k. k = cacheKey \<or> k = staleKey) (map fst (generalCache st)) \<and>
      (case map_of (generalCache st) cacheKey of
         None \<Rightarrow> True
       | Some e \<Rightarrow>
           (case map_of (generalCache st) staleKey of
              None \<Rightarrow> False
            | Some e' \<Rightarrow> expires e \<le> expires e')))"

section \<open>The validation of the route parameter\<close>

text \<open>
  \<open>linhaSchema\<close> of the routes, \<open>Joi.string().min(1).max(20).required()\<close>: a string of one
  to twenty characters. The string is not trimmed before it is measured.
\<close>

definition linhaSchema :: "string \<Rightarrow> bool" where
  "linhaSchema linha = (1 \<le> length linha \<and> length linha \<le> 20)"

section \<open>The line index\<close>


lemma index_step_map_of:
  "map_of (AList.map_entry k (\<lambda>bucket. bucket @ [b])
      (if map_of idx k = None then idx @ [(k, [])] else idx)) k' =
   (if k' = k then Some ((case map_of idx k of None \<Rightarrow> [] | Some bs \<Rightarrow> bs) @ [b])
    else map_of idx k')"
  by (auto simp: map_of_map_entry map_add_def split: option.splits)





lemma indexLoop_map_of:
  "map_of (indexLoop E buses idx) k =
   (case map_of idx k of
      Some bs \<Rightarrow> Some (bs @ filter (\<lambda>b. lineKey E b = k) buses)
    | None \<Rightarrow> if k \<in> lineKey E ` set buses
              then Some (filter (\<lambda>b. lineKey E b = k) buses) else None)"
proof (induction buses arbitrary: idx)
  case Nil
  show ?case by (simp split: option.splits)
next
  case (Cons b buses)
  show ?case
    by (simp add: Let_def Cons.IH index_step_map_of split: option.splits)
qed

lemma lineKey_nonempty: "lineKey E b \<noteq> []"
  by (simp add: lineKey_def Let_def split: jsval.splits)

lemma indexLoop_keys: "fst ` set (indexLoop E buses []) = lineKey E ` set buses"
proof -
  have "k \<in> fst ` set (indexLoop E buses []) \<longleftrightarrow> map_of (indexLoop E buses []) k \<noteq> None" for k
    by (simp add: map_of_eq_None_iff)
  then have "k \<in> fst ` set (indexLoop E buses []) \<longleftrightarrow> k \<in> lineKey E ` set buses" for k
    by (simp only: indexLoop_map_of) simp
  then show ?thesis by blast
qed


section \<open>Rounding to a double\<close>

lemma floor_minus_cases:
  fixes q :: real
  shows "\<lfloor>- q\<rfloor> = (if q = real_of_int \<lfloor>q\<rfloor> then - \<lfloor>q\<rfloor> else - \<lfloor>q\<rfloor> - 1)"
  by (simp add: floor_minus ceiling_altdef)

text \<open>Rounding to the nearest integer, ties to even, is odd.\<close>

lemma roundEven_minus: "roundEven (- q) = - roundEven q"
proof (cases "q = real_of_int \<lfloor>q\<rfloor>")
  case True
  then have r: "q - real_of_int \<lfloor>q\<rfloor> = 0" by simp
  have f: "\<lfloor>- q\<rfloor> = - \<lfloor>q\<rfloor>"
    using True by (simp add: floor_minus_cases)
  have r': "- q - real_of_int (- \<lfloor>q\<rfloor>) = 0"
    using True by simp
  show ?thesis
    unfolding roundEven_def f Let_def r r' by simp
next
  case False
  have f: "\<lfloor>- q\<rfloor> = - \<lfloor>q\<rfloor> - 1"
    using False by (simp add: floor_minus_cases)
  define n where "n = \<lfloor>q\<rfloor>"
  define r where "r = q - real_of_int n"
  have q: "q = real_of_int n + r" by (simp add: r_def)
  have r': "- q - real_of_int (- n - 1) = 1 - r"
    by (simp add: q)
  have e: "even (- n - 1) \<longleftrightarrow> odd n"
    by simp
  show ?thesis
    unfolding roundEven_def f Let_def n_def [symmetric] r' r_def [symmetric] e
    by auto
qed

lemma binade_minus: "binade (- x) = binade x"
  by (simp add: binade_def)

lemma dbl_minus: "dbl (- x) = - dbl x"
  by (simp add: dbl_def binade_minus roundEven_minus Let_def)

text \<open>\<open>binade x\<close> is the exponent of the binade of \<open>x\<close>.\<close>

lemma binade_bounds:
  assumes "x \<noteq> 0"
  shows "2 powi binade x \<le> \<bar>x\<bar>" and "\<bar>x\<bar> < 2 powi (binade x + 1)"
proof -
  have "2 powi binade x \<le> \<bar>x\<bar> \<and> \<bar>x\<bar> < 2 powi (binade x + 1)"
  proof (cases "1 \<le> \<bar>x\<bar>")
    case True
    define n where "n = \<lfloor>\<bar>x\<bar>\<rfloor>"
    have n: "0 < n" "real_of_int n \<le> \<bar>x\<bar>" "\<bar>x\<bar> < real_of_int n + 1"
      using True by (simp_all add: n_def)
    have b: "1 \<le> bitlen n"
      using n(1) bitlen_nonneg [of n] bitlen_eq_zero_iff [of n] by linarith
    have e: "binade x = bitlen n - 1"
      using True by (simp add: binade_def n_def)
    from bitlen_bounds [OF n(1)] have i: "2 ^ nat (bitlen n - 1) \<le> n" "n + 1 \<le> 2 ^ nat (bitlen n)"
      by simp_all
    have 1: "2 powi (bitlen n - 1) \<le> real_of_int n"
      using b i(1) by (simp add: power_int_def)
    have "real_of_int (n + 1) \<le> real_of_int (2 ^ nat (bitlen n))"
      using i(2) by (simp only: of_int_le_iff)
    then have "real_of_int n + 1 \<le> 2 ^ nat (bitlen n)"
      by (simp only: of_int_add of_int_1 of_int_power of_int_numeral)
    then have 2: "real_of_int n + 1 \<le> 2 powi (bitlen n)"
      using b by (simp add: power_int_def)
    show ?thesis
      unfolding e using 1 2 n by simp
  next
    case False
    define y where "y = 1 / \<bar>x\<bar>"
    define m where "m = \<lceil>y\<rceil> - 1"
    have x: "0 < \<bar>x\<bar>" "\<bar>x\<bar> < 1" using assms False by simp_all
    have y: "1 < y" using x by (simp add: y_def)
    have m: "0 < m" "real_of_int m < y" "y \<le> real_of_int m + 1"
      using y by (simp_all add: m_def) linarith
    have b: "1 \<le> bitlen m"
      using m(1) bitlen_nonneg [of m] bitlen_eq_zero_iff [of m] by linarith
    have e: "binade x = - bitlen m"
      using False by (simp add: binade_def m_def y_def)
    from bitlen_bounds [OF m(1)] have i: "2 ^ nat (bitlen m - 1) \<le> m" "m + 1 \<le> 2 ^ nat (bitlen m)"
      by simp_all
    have "(2::real) ^ nat (bitlen m - 1) \<le> real_of_int m"
      using i(1) by simp
    then have 1: "2 ^ nat (bitlen m - 1) < y"
      using m(2) by linarith
    have "real_of_int (m + 1) \<le> real_of_int (2 ^ nat (bitlen m))"
      using i(2) by (simp only: of_int_le_iff)
    then have "real_of_int m + 1 \<le> 2 ^ nat (bitlen m)"
      by (simp only: of_int_add of_int_1 of_int_power of_int_numeral)
    then have 2: "y \<le> 2 ^ nat (bitlen m)"
      using m(3) by linarith
    have xy: "\<bar>x\<bar> = 1 / y" using x by (simp add: y_def)
    have p1: "(2::real) powi (- bitlen m) = 1 / 2 ^ nat (bitlen m)"
      using b by (simp add: power_int_minus power_int_def inverse_eq_divide power_one_over)
    have "- bitlen m + 1 = - (bitlen m - 1)"
      by simp
    then have p2: "(2::real) powi (- bitlen m + 1) = 1 / 2 ^ nat (bitlen m - 1)"
      using b by (simp only: power_int_minus) (simp add: power_int_def inverse_eq_divide power_one_over)
    have "1 / 2 ^ nat (bitlen m) \<le> 1 / y"
      using 2 y by (simp add: field_simps)
    moreover have "1 / y < 1 / 2 ^ nat (bitlen m - 1)"
      using 1 y by (simp add: field_simps)
    ultimately show ?thesis
      unfolding e p1 p2 xy by simp
  qed
  then show "2 powi binade x \<le> \<bar>x\<bar>" and "\<bar>x\<bar> < 2 powi (binade x + 1)"
    by simp_all
qed

lemma roundEven_error: "\<bar>real_of_int (roundEven q) - q\<bar> \<le> 1 / 2"
proof -
  have "0 \<le> q - real_of_int \<lfloor>q\<rfloor>" "q - real_of_int \<lfloor>q\<rfloor> < 1"
    by linarith+
  then show ?thesis
    by (auto simp: roundEven_def Let_def abs_le_iff)
qed

text \<open>The double nearest to \<open>x\<close> is \<open>x\<close> up to a relative error of \<open>2 ^ -53\<close>.\<close>

lemma dbl_error: "\<bar>dbl x - x\<bar> \<le> \<bar>x\<bar> / 2 ^ 53"
proof (cases "x = 0")
  case True
  then show ?thesis by (simp add: dbl_def)
next
  case False
  define u :: real where "u = 2 powi (binade x - 52)"
  have u: "0 < u" by (simp add: u_def)
  have "dbl x - x = (real_of_int (roundEven (x / u)) - x / u) * u"
    using False u by (simp add: dbl_def u_def [symmetric] Let_def field_simps)
  then have "\<bar>dbl x - x\<bar> = \<bar>real_of_int (roundEven (x / u)) - x / u\<bar> * u"
    using u by (simp add: abs_mult)
  also have "\<dots> \<le> 1 / 2 * u"
    using roundEven_error [of "x / u"] u by (intro mult_right_mono) simp_all
  also have "1 / 2 * u = 2 powi binade x / 2 ^ 53"
    by (simp add: u_def power_int_diff)
  also have "\<dots> \<le> \<bar>x\<bar> / 2 ^ 53"
    using binade_bounds(1) [OF False] by (simp add: divide_right_mono)
  finally show ?thesis .
qed

text \<open>The literal \<open>0.1\<close> denotes the double \<open>3602879701896397 / 2 ^ 55\<close>, just above one tenth.\<close>

lemma dbl_tenth: "dbl 0.1 = 3602879701896397 / 36028797018963968"
  by code_simp

text \<open>
  Halfway between two doubles the even significand wins: \<open>2 ^ 53 + 1\<close> goes down to
  \<open>2 ^ 53\<close>, and \<open>2 ^ 53 + 3\<close> goes up to \<open>2 ^ 53 + 4\<close>. The literal \<open>-22.9\<close> denotes a double
  just above it.
\<close>

lemma dbl_examples:
  "dbl 9007199254740993 = 9007199254740992"
  "dbl 9007199254740995 = 9007199254740996"
  "dbl (- 22.9) = - (3222888483337011 / 140737488355328)"
  by code_simp+

text \<open>
  The difference of two coordinates as the machine computes it, against their difference
  as real numbers: for coordinates up to 180 degrees either way the two are less than
  \<open>10 ^ -13\<close> apart, so the test of the machine is the test on real numbers unless the
  real difference is that close to one tenth.
\<close>

lemma box_difference_error:
  assumes "\<bar>a\<bar> \<le> 180" "\<bar>c\<bar> \<le> 180"
  shows "\<bar>dbl (dbl c - dbl a) - (c - a)\<bar> \<le> 721 / 2 ^ 53"
proof -
  define D where "D = dbl c - dbl a"
  have "\<bar>dbl a - a\<bar> \<le> \<bar>a\<bar> / 2 ^ 53"
    by (rule dbl_error)
  also have "\<dots> \<le> 180 / 2 ^ 53"
    using assms(1) by (simp add: divide_right_mono)
  finally have ea: "\<bar>dbl a - a\<bar> \<le> 180 / 2 ^ 53" .
  have "\<bar>dbl c - c\<bar> \<le> \<bar>c\<bar> / 2 ^ 53"
    by (rule dbl_error)
  also have "\<dots> \<le> 180 / 2 ^ 53"
    using assms(2) by (simp add: divide_right_mono)
  finally have ec: "\<bar>dbl c - c\<bar> \<le> 180 / 2 ^ 53" .
  have d1: "\<bar>D - (c - a)\<bar> \<le> 360 / 2 ^ 53"
    using ea ec unfolding D_def by linarith
  have "(360::real) / 2 ^ 53 \<le> 1"
    by simp
  with d1 assms have "\<bar>D\<bar> \<le> 361"
    by linarith
  then have "\<bar>D\<bar> / 2 ^ 53 \<le> 361 / 2 ^ 53"
    by (simp add: divide_right_mono)
  with dbl_error [of D] have d2: "\<bar>dbl D - D\<bar> \<le> 361 / 2 ^ 53"
    by linarith
  show ?thesis
    using d1 d2 unfolding D_def by linarith
qed

lemma box_test_outside:
  assumes "\<bar>a\<bar> \<le> 180" "\<bar>c\<bar> \<le> 180" "0.1 + 1 / 10 ^ 13 \<le> \<bar>c - a\<bar>"
  shows "dbl 0.1 < \<bar>dbl (dbl c - dbl a)\<bar>"
proof -
  have "dbl 0.1 + 721 / 2 ^ 53 < 0.1 + 1 / 10 ^ 13"
    by (simp add: dbl_tenth)
  with box_difference_error [OF assms(1,2)] assms(3) show ?thesis
    by linarith
qed

lemma box_test_inside:
  assumes "\<bar>a\<bar> \<le> 180" "\<bar>c\<bar> \<le> 180" "\<bar>c - a\<bar> \<le> 0.1 - 1 / 10 ^ 13"
  shows "\<not> dbl 0.1 < \<bar>dbl (dbl c - dbl a)\<bar>"
proof -
  have "0.1 - 1 / 10 ^ 13 + 721 / 2 ^ 53 \<le> dbl 0.1"
    by (simp add: dbl_tenth)
  with box_difference_error [OF assms(1,2)] assms(3) show ?thesis
    by linarith
qed

lemma jabs_jsubD_commute: "jabs (jsubD a b) = jabs (jsubD b a)"
proof (cases "\<exists>x y. a = Finite x \<and> b = Finite y")
  case True
  then obtain x y where ab: "a = Finite x" "b = Finite y" by blast
  have "dbl (dbl y - dbl x) = dbl (- (dbl x - dbl y))"
    by simp
  then have "dbl (dbl y - dbl x) = - dbl (dbl x - dbl y)"
    by (simp only: dbl_minus)
  then show ?thesis
    by (simp add: ab jsubD_def)
next
  case False
  then show ?thesis
    by (cases a; cases b) (simp_all add: jsubD_def)
qed

section \<open>The factor that converts degrees\<close>

text \<open>
  The partial sums of the series of the arc tangent enclose it, on \<open>[0, 1]\<close>: the terms
  alternate in sign and decrease to 0.
\<close>

lemma odd_power_term_null:
  fixes x :: real
  assumes "0 \<le> x" "x \<le> 1"
  shows "(\<lambda>k. 1 / real (k * 2 + 1) * x ^ (k * 2 + 1)) \<longlonglongrightarrow> 0"
proof (rule real_tendsto_sandwich [of "\<lambda>k. 0" _ _ "\<lambda>k. 1 / real (Suc k)"])
  show "\<forall>\<^sub>F k in sequentially. 0 \<le> 1 / real (k * 2 + 1) * x ^ (k * 2 + 1)"
    using assms by simp
  show "\<forall>\<^sub>F k in sequentially. 1 / real (k * 2 + 1) * x ^ (k * 2 + 1) \<le> 1 / real (Suc k)"
  proof (rule always_eventually, rule allI)
    fix k
    have "x ^ (k * 2 + 1) \<le> 1"
      using assms by (intro power_le_one)
    then have "1 / real (k * 2 + 1) * x ^ (k * 2 + 1) \<le> 1 / real (k * 2 + 1) * 1"
      by (intro mult_left_mono) simp_all
    also have "\<dots> \<le> 1 / real (Suc k)"
      by (simp add: field_simps)
    finally show "1 / real (k * 2 + 1) * x ^ (k * 2 + 1) \<le> 1 / real (Suc k)" .
  qed
  show "(\<lambda>k. 0::real) \<longlonglongrightarrow> 0" by simp
  show "(\<lambda>k. 1 / real (Suc k)) \<longlonglongrightarrow> 0"
    by (rule LIMSEQ_inverse_real_of_nat [unfolded inverse_eq_divide])
qed

lemma odd_power_term_mono:
  fixes x :: real
  assumes "0 \<le> x" "x \<le> 1"
  shows "1 / real (Suc k * 2 + 1) * x ^ (Suc k * 2 + 1) \<le> 1 / real (k * 2 + 1) * x ^ (k * 2 + 1)"
proof -
  have "x ^ (Suc k * 2 + 1) \<le> x ^ (k * 2 + 1)"
    using assms by (intro power_decreasing) simp_all
  moreover have "1 / real (Suc k * 2 + 1) \<le> 1 / real (k * 2 + 1)"
    by (simp add: field_simps)
  moreover have "0 \<le> x ^ (Suc k * 2 + 1)" using assms by simp
  ultimately show ?thesis
    by (intro mult_mono) simp_all
qed

lemma arctan_partial_sums:
  fixes x :: real
  assumes "0 \<le> x" "x \<le> 1"
  shows "(\<Sum>i<2*n. (-1)^i * (1 / real (i * 2 + 1) * x ^ (i * 2 + 1))) \<le> arctan x"
    and "arctan x \<le> (\<Sum>i<2*n+1. (-1)^i * (1 / real (i * 2 + 1) * x ^ (i * 2 + 1)))"
proof -
  have s: "arctan x = (\<Sum>k. (-1)^k * (1 / real (k * 2 + 1) * x ^ (k * 2 + 1)))"
    using assms by (intro arctan_series) simp
  note l = summable_Leibniz' [OF odd_power_term_null [OF assms] _ odd_power_term_mono [OF assms]]
  have p: "0 \<le> 1 / real (k * 2 + 1) * x ^ (k * 2 + 1)" for k
    using assms by simp
  show "(\<Sum>i<2*n. (-1)^i * (1 / real (i * 2 + 1) * x ^ (i * 2 + 1))) \<le> arctan x"
    unfolding s by (rule l(2) [OF p])
  show "arctan x \<le> (\<Sum>i<2*n+1. (-1)^i * (1 / real (i * 2 + 1) * x ^ (i * 2 + 1)))"
    unfolding s by (rule l(4) [OF p])
qed

text \<open>Seventeen decimals of \<open>\<pi>\<close>, from Euler's formula \<open>\<pi> / 4 = 5 arctan (1 / 7) + 2 arctan (3 / 79)\<close>.\<close>

lemma pi_bounds: "3.14159265358979320 < pi" "pi < 3.14159265358979327"
proof -
  have e: "pi = 20 * arctan (1 / 7) + 8 * arctan (3 / 79)"
    using machin_Euler by simp
  have a1: "(\<Sum>i<2*6. (-1)^i * (1 / real (i * 2 + 1) * (1 / 7 :: real) ^ (i * 2 + 1))) \<le> arctan (1 / 7)"
    by (rule arctan_partial_sums) simp_all
  have a2: "arctan (1 / 7 :: real) \<le> (\<Sum>i<2*6+1. (-1)^i * (1 / real (i * 2 + 1) * (1 / 7 :: real) ^ (i * 2 + 1)))"
    by (rule arctan_partial_sums) simp_all
  have b1: "(\<Sum>i<2*4. (-1)^i * (1 / real (i * 2 + 1) * (3 / 79 :: real) ^ (i * 2 + 1))) \<le> arctan (3 / 79)"
    by (rule arctan_partial_sums) simp_all
  have b2: "arctan (3 / 79 :: real) \<le> (\<Sum>i<2*4+1. (-1)^i * (1 / real (i * 2 + 1) * (3 / 79 :: real) ^ (i * 2 + 1)))"
    by (rule arctan_partial_sums) simp_all
  show "3.14159265358979320 < pi"
    unfolding e using a1 b1 by (simp add: eval_nat_numeral)
  show "pi < 3.14159265358979327"
    unfolding e using a2 b2 by (simp add: eval_nat_numeral)
qed

text \<open>The literal of the code is \<open>\<pi> / 180\<close> to eighteen decimals.\<close>

lemma deg2rad_close: "\<bar>deg2rad - pi / 180\<bar> < 1 / 10 ^ 18"
  using pi_bounds by (simp add: deg2rad_def abs_less_iff)

lemma degScale_close: "\<bar>degScale - 1\<bar> < 6 / 10 ^ 17"
proof -
  have "degScale - 1 = (deg2rad * 180 - pi) / pi"
    by (simp add: degScale_def field_simps)
  moreover have "\<bar>deg2rad * 180 - pi\<bar> < 6 / 10 ^ 17 * pi"
    using pi_bounds by (simp add: deg2rad_def abs_less_iff)
  ultimately show ?thesis
    by (simp add: abs_divide pos_divide_less_eq)
qed

lemma degScale_radians: "x * degScale * (pi / 180) = x * deg2rad"
  by (simp add: degScale_def)

section \<open>The distance function\<close>

lemma unit_times_bounds:
  fixes c t :: real
  assumes "- 1 \<le> c" "c \<le> 1" "0 \<le> t"
  shows "c * t \<le> t" "- t \<le> c * t"
  using mult_right_mono [OF assms(2,3)] mult_right_mono [OF assms(1,3)] by simp_all

lemma hav_bounds:
  fixes p q l :: real
  defines "h \<equiv> (sin ((q - p) / 2))\<^sup>2 + cos p * cos q * (sin (l / 2))\<^sup>2"
  shows "0 \<le> h" and "h \<le> 1"
proof -
  define s where "s = (sin (l / 2))\<^sup>2"
  define c where "c = cos (q - p)"
  define c' where "c' = cos (p + q)"
  have s: "0 \<le> s" "s \<le> 1" by (simp_all add: s_def abs_square_le_1 flip: abs_le_iff) 
  have c: "- 1 \<le> c" "c \<le> 1" "- 1 \<le> c'" "c' \<le> 1" by (simp_all add: c_def c'_def)
  have "q - p = 2 * ((q - p) / 2)" by simp
  then have "c = cos (2 * ((q - p) / 2))" unfolding c_def by (rule arg_cong)
  then have 1: "(sin ((q - p) / 2))\<^sup>2 = (1 - c) / 2"
    by (simp only: cos_double_sin) simp
  have 2: "cos p * cos q = (c + c') / 2"
    using cos_times_cos[of p q] by (simp add: c_def c'_def cos_diff cos_add)
  have h: "h = 1 / 2 - c * (1 - s) / 2 + s * c' / 2"
    unfolding h_def 1 2 s_def[symmetric] by (simp add: field_simps)
  have a: "c * (1 - s) \<le> 1 - s" "- (1 - s) \<le> c * (1 - s)"
    using unit_times_bounds [of c "1 - s"] s c by simp_all
  have b: "s * c' \<le> s" "- s \<le> s * c'"
    using unit_times_bounds [of c' s] s c by (simp_all add: mult.commute)
  show "0 \<le> h" using h a b by linarith
  show "h \<le> 1" using h a b by linarith
qed

lemma atan2_sqrt_arcsin:
  assumes "0 \<le> h" "h \<le> 1"
  shows "jatan2 (jsqrt (Finite h)) (jsqrt (jsub (Finite 1) (Finite h))) = Finite (arcsin (sqrt h))"
proof (cases "h = 1")
  case True
  then show ?thesis by simp
next
  case False
  with assms have lt: "h < 1" by simp
  have r: "sqrt h < 1" using lt assms by (simp add: real_sqrt_lt_1_iff)
  have r0: "- 1 < sqrt h" using assms by (smt (verit) real_sqrt_ge_zero)
  have "arcsin (sqrt h) = arctan (sqrt h / sqrt (1 - (sqrt h)\<^sup>2))"
    using arcsin_arctan [OF r0 r] .
  also have "(sqrt h)\<^sup>2 = h" using assms by simp
  finally show ?thesis using lt assms by simp
qed

lemma jmul_commute: "jmul a b = jmul b a"
  by (cases a; cases b) (simp_all add: mult.commute)

lemma sin_half_swap:
  fixes x y k :: real
  shows "sin ((y - x) * k / 2) = - sin ((x - y) * k / 2)"
proof -
  have "(y - x) * k / 2 = - ((x - y) * k / 2)"
    by (simp add: field_simps)
  then show ?thesis
    by (simp only: sin_minus)
qed

lemma jmul_NaN_right: "jmul w NaN = NaN"
  by (cases w) simp_all

lemma jmul_neg_twice:
  "jmul (jmul w (Finite (- t))) (Finite (- t)) = jmul (jmul w (Finite t)) (Finite t)"
  by (cases w) (auto simp: not_less)

lemma jsin_half_nonfinite:
  "a = NaN \<or> a = PInf \<or> a = NInf \<or> b = NaN \<or> b = PInf \<or> b = NInf \<Longrightarrow>
   jsin (jdiv (jmul (jsub a b) (Finite deg2rad)) (Finite 2)) = NaN"
  by (cases a; cases b) (auto simp: deg2rad_def)

lemma scaled_chord_commute:
  "jmul (jmul w (jsin (jdiv (jmul (jsub a b) (Finite deg2rad)) (Finite 2))))
        (jsin (jdiv (jmul (jsub a b) (Finite deg2rad)) (Finite 2))) =
   jmul (jmul w (jsin (jdiv (jmul (jsub b a) (Finite deg2rad)) (Finite 2))))
        (jsin (jdiv (jmul (jsub b a) (Finite deg2rad)) (Finite 2)))"
proof (cases "\<exists>x y. a = Finite x \<and> b = Finite y")
  case True
  then obtain x y where ab: "a = Finite x" "b = Finite y" by blast
  have 1: "jsin (jdiv (jmul (jsub a b) (Finite deg2rad)) (Finite 2)) =
      Finite (sin ((x - y) * deg2rad / 2))"
    by (simp add: ab)
  have "jsin (jdiv (jmul (jsub b a) (Finite deg2rad)) (Finite 2)) =
      Finite (sin ((y - x) * deg2rad / 2))"
    by (simp add: ab)
  then have 2: "jsin (jdiv (jmul (jsub b a) (Finite deg2rad)) (Finite 2)) =
      Finite (- sin ((x - y) * deg2rad / 2))"
    unfolding sin_half_swap [of y x deg2rad] .
  show ?thesis
    unfolding 1 2 by (rule jmul_neg_twice [symmetric])
next
  case False
  then have n: "a = NaN \<or> a = PInf \<or> a = NInf \<or> b = NaN \<or> b = PInf \<or> b = NInf"
    by (cases a; cases b) simp_all
  then have n': "b = NaN \<or> b = PInf \<or> b = NInf \<or> a = NaN \<or> a = PInf \<or> a = NInf"
    by blast
  show ?thesis
    by (simp only: jsin_half_nonfinite [OF n] jsin_half_nonfinite [OF n'])
qed

lemma half_chord_commute:
  "jmul (jsin (jdiv (jmul (jsub a b) (Finite deg2rad)) (Finite 2)))
        (jsin (jdiv (jmul (jsub a b) (Finite deg2rad)) (Finite 2))) =
   jmul (jsin (jdiv (jmul (jsub b a) (Finite deg2rad)) (Finite 2)))
        (jsin (jdiv (jmul (jsub b a) (Finite deg2rad)) (Finite 2)))"
proof (cases "\<exists>x y. a = Finite x \<and> b = Finite y")
  case True
  then obtain x y where ab: "a = Finite x" "b = Finite y" by blast
  have 1: "jsin (jdiv (jmul (jsub a b) (Finite deg2rad)) (Finite 2)) =
      Finite (sin ((x - y) * deg2rad / 2))"
    by (simp add: ab)
  have "jsin (jdiv (jmul (jsub b a) (Finite deg2rad)) (Finite 2)) =
      Finite (sin ((y - x) * deg2rad / 2))"
    by (simp add: ab)
  then have 2: "jsin (jdiv (jmul (jsub b a) (Finite deg2rad)) (Finite 2)) =
      Finite (- sin ((x - y) * deg2rad / 2))"
    unfolding sin_half_swap [of y x deg2rad] .
  show ?thesis
    unfolding 1 2 by simp
next
  case False
  then have n: "a = NaN \<or> a = PInf \<or> a = NInf \<or> b = NaN \<or> b = PInf \<or> b = NInf"
    by (cases a; cases b) simp_all
  then have n': "b = NaN \<or> b = PInf \<or> b = NInf \<or> a = NaN \<or> a = PInf \<or> a = NInf"
    by blast
  show ?thesis
    by (simp only: jsin_half_nonfinite [OF n] jsin_half_nonfinite [OF n'])
qed

text \<open>
  C10. The distance function is symmetric in its two points, for all arguments: on the
  branch that returns \<open>+infinity\<close> and on the haversine branch.
\<close>

theorem calcularDistancia_symmetric:
  "calcularDistancia lat1 lon1 lat2 lon2 = calcularDistancia lat2 lon2 lat1 lon1"
  unfolding calcularDistancia_def Let_def
  by (simp only: jabs_jsubD_commute [of lat2 lat1] jabs_jsubD_commute [of lon2 lon1]
       half_chord_commute [of lat2 lat1] scaled_chord_commute [of _ lon2 lon1]
       jmul_commute [of "jcos (jmul lat1 (Finite deg2rad))" "jcos (jmul lat2 (Finite deg2rad))"])

text \<open>
  On finite arguments: the test of the machine, then the haversine formula, which the code
  evaluates at the coordinates scaled by \<open>degScale\<close>.
\<close>

lemma calcularDistancia_finite:
  "calcularDistancia (Finite a) (Finite b) (Finite c) (Finite d) =
   (if dbl 0.1 < \<bar>dbl (dbl c - dbl a)\<bar> \<or> dbl 0.1 < \<bar>dbl (dbl d - dbl b)\<bar> then PInf
    else Finite (haversineKm (a * degScale) (b * degScale) (c * degScale) (d * degScale)))"
proof -
  define h where "h = (sin ((c - a) * deg2rad / 2))\<^sup>2 +
    cos (a * deg2rad) * cos (c * deg2rad) * (sin ((d - b) * deg2rad / 2))\<^sup>2"
  have e: "(c - a) * deg2rad / 2 = (c * deg2rad - a * deg2rad) / 2"
    by (simp add: algebra_simps)
  have hb: "0 \<le> h" "h \<le> 1"
    unfolding h_def e by (rule hav_bounds)+
  have code_a: "jadd
      (jmul (jsin (jdiv (jmul (jsub (Finite c) (Finite a)) (Finite deg2rad)) (Finite 2)))
            (jsin (jdiv (jmul (jsub (Finite c) (Finite a)) (Finite deg2rad)) (Finite 2))))
      (jmul
        (jmul
          (jmul (jcos (jmul (Finite a) (Finite deg2rad))) (jcos (jmul (Finite c) (Finite deg2rad))))
          (jsin (jdiv (jmul (jsub (Finite d) (Finite b)) (Finite deg2rad)) (Finite 2))))
        (jsin (jdiv (jmul (jsub (Finite d) (Finite b)) (Finite deg2rad)) (Finite 2)))) = Finite h"
    by (simp add: h_def power2_eq_square)
  have g: "jgt (jabs (jsubD (Finite c) (Finite a))) (asDouble (Finite 0.1)) =
             (dbl 0.1 < \<bar>dbl (dbl c - dbl a)\<bar>)"
          "jgt (jabs (jsubD (Finite d) (Finite b))) (asDouble (Finite 0.1)) =
             (dbl 0.1 < \<bar>dbl (dbl d - dbl b)\<bar>)"
    by (simp_all add: jgt_def jsubD_def)
  have s: "(c * degScale - a * degScale) * (pi / 180) = (c - a) * deg2rad"
          "(d * degScale - b * degScale) * (pi / 180) = (d - b) * deg2rad"
    by (simp_all add: degScale_def algebra_simps)
  have hv: "haversineKm (a * degScale) (b * degScale) (c * degScale) (d * degScale) =
      2 * 6371 * arcsin (sqrt h)"
    by (simp only: haversineKm_def Let_def h_def degScale_radians s)
  show ?thesis
    unfolding calcularDistancia_def Let_def code_a g hv atan2_sqrt_arcsin [OF hb]
    by simp
qed

lemma jsub_NaN_inside_box:
  "\<not> jgt (jabs (jsubD x y)) (asDouble (Finite 0.1)) \<Longrightarrow> \<nexists>a b. x = Finite a \<and> y = Finite b \<Longrightarrow>
   jsub x y = NaN"
  by (cases x; cases y) (simp_all add: jgt_def jsubD_def)

lemma jmul_NaN_left: "jmul NaN w = NaN"
  by (cases w) simp_all

lemma jadd_NaN_right: "jadd w NaN = NaN"
  by (cases w) simp_all

lemma jadd_NaN_left: "jadd NaN w = NaN"
  by (cases w) simp_all

lemma jdiv_NaN_left: "jdiv NaN w = NaN"
  by (cases w) simp_all

lemma jatan2_NaN_left: "jatan2 NaN w = NaN"
  by (cases w) simp_all

lemma calcularDistancia_NaN:
  assumes box: "\<not> (jgt (jabs (jsubD lat2 lat1)) (asDouble (Finite 0.1)) \<or>
                    jgt (jabs (jsubD lon2 lon1)) (asDouble (Finite 0.1)))"
    and n: "jsub lat2 lat1 = NaN \<or> jsub lon2 lon1 = NaN"
  shows "calcularDistancia lat1 lon1 lat2 lon2 = NaN"
  using n
proof
  assume "jsub lat2 lat1 = NaN"
  then show ?thesis
    using box by (simp add: calcularDistancia_def Let_def jmul_NaN_left jdiv_NaN_left jadd_NaN_left jatan2_NaN_left jmul_NaN_right)
next
  assume "jsub lon2 lon1 = NaN"
  then show ?thesis
    using box by (simp add: calcularDistancia_def Let_def jmul_NaN_left jdiv_NaN_left jadd_NaN_left jadd_NaN_right jatan2_NaN_left jmul_NaN_right)
qed

text \<open>One degree apart is outside the box, whatever the true distance.\<close>

lemma calcularDistancia_one_degree:
  "calcularDistancia (Finite 0) (Finite 0) (Finite 1) (Finite 1) = PInf"
  using box_test_outside [of 0 1] by (simp add: calcularDistancia_finite)

text \<open>
  The subtraction of the machine decides the test. The latitudes \<open>-22.9\<close> and \<open>-23\<close> are
  one tenth apart as decimals; the doubles are \<open>0.10000000000000142\<close> apart, which is
  outside the box. So are \<open>0.3\<close> and \<open>0.4\<close>. The doubles \<open>0\<close> and \<open>0.1\<close> are inside, although
  the double \<open>0.1\<close> lies above one tenth.
\<close>

lemma box_test_examples:
  "dbl (dbl (- 23) - dbl (- 22.9)) = - (14073748835533 / 140737488355328)"
  "dbl 0.1 < \<bar>dbl (dbl (- 23) - dbl (- 22.9))\<bar>"
  "dbl 0.1 < \<bar>dbl (dbl 0.4 - dbl 0.3)\<bar>"
  "\<not> dbl 0.1 < \<bar>dbl (dbl 0.1 - dbl 0)\<bar>"
  by code_simp+

lemma calcularDistancia_at_a_tenth:
  "calcularDistancia (Finite (- 22.9)) (Finite (- 43.2)) (Finite (- 23)) (Finite (- 43.2)) = PInf"
  "calcularDistancia (Finite 0.3) (Finite 0) (Finite 0.4) (Finite 0) = PInf"
  "calcularDistancia (Finite 0) (Finite 0) (Finite 0.1) (Finite 0) =
     Finite (haversineKm 0 0 (0.1 * degScale) 0)"
  using box_test_examples by (simp_all add: calcularDistancia_finite dbl_def)

text \<open>
  C2. For all arguments \<open>calcularDistancia\<close> returns \<open>+infinity\<close> whenever the latitudes or
  the longitudes differ by more than one tenth, and otherwise the haversine distance on a
  sphere of radius 6371 km, with the degrees converted to radians (the \<open>atan2\<close> of the code
  is the arcsine of the formula); arguments that are not finite numbers and pass the test
  give \<open>NaN\<close>. The test is the one that the machine performs: on the doubles, with their
  rounded difference, against the double that \<open>0.1\<close> denotes. For coordinates up to 180
  degrees either way it is the test on real numbers, unless a difference lies within
  \<open>10 ^ -13\<close> of one tenth. The code converts with the literal \<open>0.017453292519943295\<close>,
  which is \<open>\<pi> / 180\<close> to eighteen decimals: what it returns is the haversine distance of
  the two points with every coordinate scaled by \<open>degScale\<close>, a factor less than
  \<open>6 / 10 ^ 17\<close> away from 1. The distance from \<open>(0, 0)\<close> to \<open>(0, 0)\<close> is 0.
\<close>

theorem calcularDistancia_bounded_haversine:
  "calcularDistancia lat1 lon1 lat2 lon2 =
     (if jgt (jabs (jsubD lat2 lat1)) (Finite (dbl 0.1)) \<or>
         jgt (jabs (jsubD lon2 lon1)) (Finite (dbl 0.1))
      then PInf
      else (case (lat1, lon1, lat2, lon2) of
              (Finite p, Finite q, Finite r, Finite s) \<Rightarrow>
                Finite (haversineKm (p * degScale) (q * degScale) (r * degScale) (s * degScale))
            | _ \<Rightarrow> NaN)) \<and>
   \<bar>deg2rad - pi / 180\<bar> < 1 / 10 ^ 18 \<and>
   \<bar>degScale - 1\<bar> < 6 / 10 ^ 17 \<and>
   (\<bar>a\<bar> \<le> 180 \<and> \<bar>b\<bar> \<le> 180 \<and> \<bar>c\<bar> \<le> 180 \<and> \<bar>d\<bar> \<le> 180 \<and>
    (0.1 + 1 / 10 ^ 13 \<le> \<bar>c - a\<bar> \<or> 0.1 + 1 / 10 ^ 13 \<le> \<bar>d - b\<bar>) \<longrightarrow>
      calcularDistancia (Finite a) (Finite b) (Finite c) (Finite d) = PInf) \<and>
   (\<bar>a\<bar> \<le> 180 \<and> \<bar>b\<bar> \<le> 180 \<and> \<bar>c\<bar> \<le> 180 \<and> \<bar>d\<bar> \<le> 180 \<and>
    \<bar>c - a\<bar> \<le> 0.1 - 1 / 10 ^ 13 \<and> \<bar>d - b\<bar> \<le> 0.1 - 1 / 10 ^ 13 \<longrightarrow>
      calcularDistancia (Finite a) (Finite b) (Finite c) (Finite d) =
        Finite (haversineKm (a * degScale) (b * degScale) (c * degScale) (d * degScale))) \<and>
   calcularDistancia (Finite 0) (Finite 0) (Finite 0) (Finite 0) = Finite 0"
proof (intro conjI impI)
  let ?box = "jgt (jabs (jsubD lat2 lat1)) (Finite (dbl 0.1)) \<or>
              jgt (jabs (jsubD lon2 lon1)) (Finite (dbl 0.1))"
  show "calcularDistancia lat1 lon1 lat2 lon2 =
     (if ?box then PInf
      else (case (lat1, lon1, lat2, lon2) of
              (Finite p, Finite q, Finite r, Finite s) \<Rightarrow>
                Finite (haversineKm (p * degScale) (q * degScale) (r * degScale) (s * degScale))
            | _ \<Rightarrow> NaN))"
  proof (cases ?box)
    case True
    then show ?thesis
      by (simp add: calcularDistancia_def)
  next
    case box: False
    show ?thesis
    proof (cases "\<exists>p q r s. lat1 = Finite p \<and> lon1 = Finite q \<and> lat2 = Finite r \<and> lon2 = Finite s")
      case True
      then obtain p q r s where "lat1 = Finite p" "lon1 = Finite q" "lat2 = Finite r" "lon2 = Finite s"
        by blast
      then show ?thesis
        by (simp add: calcularDistancia_finite jgt_def jsubD_def)
    next
      case False
      then have "(\<nexists>x y. lat2 = Finite x \<and> lat1 = Finite y) \<or> (\<nexists>x y. lon2 = Finite x \<and> lon1 = Finite y)"
        by blast
      with box have "jsub lat2 lat1 = NaN \<or> jsub lon2 lon1 = NaN"
        using jsub_NaN_inside_box [of lat2 lat1] jsub_NaN_inside_box [of lon2 lon1] by auto
      then have "calcularDistancia lat1 lon1 lat2 lon2 = NaN"
        using box by (intro calcularDistancia_NaN) simp_all
      moreover have "(case (lat1, lon1, lat2, lon2) of
              (Finite p, Finite q, Finite r, Finite s) \<Rightarrow>
                Finite (haversineKm (p * degScale) (q * degScale) (r * degScale) (s * degScale))
            | _ \<Rightarrow> NaN) = NaN"
        using False by (cases lat1; cases lon1; cases lat2; cases lon2) simp_all
      ultimately show ?thesis
        using box by simp
    qed
  qed
next
  show "\<bar>deg2rad - pi / 180\<bar> < 1 / 10 ^ 18"
    by (rule deg2rad_close)
next
  show "\<bar>degScale - 1\<bar> < 6 / 10 ^ 17"
    by (rule degScale_close)
next
  assume "\<bar>a\<bar> \<le> 180 \<and> \<bar>b\<bar> \<le> 180 \<and> \<bar>c\<bar> \<le> 180 \<and> \<bar>d\<bar> \<le> 180 \<and>
    (0.1 + 1 / 10 ^ 13 \<le> \<bar>c - a\<bar> \<or> 0.1 + 1 / 10 ^ 13 \<le> \<bar>d - b\<bar>)"
  then have "dbl 0.1 < \<bar>dbl (dbl c - dbl a)\<bar> \<or> dbl 0.1 < \<bar>dbl (dbl d - dbl b)\<bar>"
    using box_test_outside [of a c] box_test_outside [of b d] by blast
  then show "calcularDistancia (Finite a) (Finite b) (Finite c) (Finite d) = PInf"
    by (simp add: calcularDistancia_finite)
next
  assume "\<bar>a\<bar> \<le> 180 \<and> \<bar>b\<bar> \<le> 180 \<and> \<bar>c\<bar> \<le> 180 \<and> \<bar>d\<bar> \<le> 180 \<and>
    \<bar>c - a\<bar> \<le> 0.1 - 1 / 10 ^ 13 \<and> \<bar>d - b\<bar> \<le> 0.1 - 1 / 10 ^ 13"
  then have "\<not> dbl 0.1 < \<bar>dbl (dbl c - dbl a)\<bar>" "\<not> dbl 0.1 < \<bar>dbl (dbl d - dbl b)\<bar>"
    using box_test_inside [of a c] box_test_inside [of b d] by blast+
  then show "calcularDistancia (Finite a) (Finite b) (Finite c) (Finite d) =
      Finite (haversineKm (a * degScale) (b * degScale) (c * degScale) (d * degScale))"
    by (simp add: calcularDistancia_finite)
next
  have "\<not> dbl 0.1 < 0"
    by (simp add: dbl_tenth)
  then show "calcularDistancia (Finite 0) (Finite 0) (Finite 0) (Finite 0) = Finite 0"
    by (simp add: calcularDistancia_finite haversineKm_def dbl_def)
qed

text \<open>
  From the centre of Rio de Janeiro: a point 0.4 degrees of latitude away is outside the
  box, a point 0.0032 degrees away is inside.
\<close>

theorem calcularDistancia_bounded_haversine_witness:
  "calcularDistancia (Finite (- 22.9068)) (Finite (- 43.1729)) (Finite (- 22.5)) (Finite (- 43.1729)) =
     PInf \<and>
   calcularDistancia (Finite (- 22.9068)) (Finite (- 43.1729)) (Finite (- 22.91)) (Finite (- 43.1729)) =
     Finite (haversineKm (- 22.9068 * degScale) (- 43.1729 * degScale)
               (- 22.91 * degScale) (- 43.1729 * degScale))"
proof -
  have 1: "\<bar>- 22.9068\<bar> \<le> (180::real) \<and> \<bar>- 43.1729\<bar> \<le> (180::real) \<and> \<bar>- 22.5\<bar> \<le> (180::real) \<and>
      \<bar>- 43.1729\<bar> \<le> (180::real) \<and>
      (0.1 + 1 / 10 ^ 13 \<le> \<bar>- 22.5 - (- 22.9068 :: real)\<bar> \<or>
       0.1 + 1 / 10 ^ 13 \<le> \<bar>- 43.1729 - (- 43.1729 :: real)\<bar>)"
    by simp
  have 2: "\<bar>- 22.9068\<bar> \<le> (180::real) \<and> \<bar>- 43.1729\<bar> \<le> (180::real) \<and> \<bar>- 22.91\<bar> \<le> (180::real) \<and>
      \<bar>- 43.1729\<bar> \<le> (180::real) \<and>
      \<bar>- 22.91 - (- 22.9068 :: real)\<bar> \<le> 0.1 - 1 / 10 ^ 13 \<and>
      \<bar>- 43.1729 - (- 43.1729 :: real)\<bar> \<le> 0.1 - 1 / 10 ^ 13"
    by simp
  show ?thesis
    using calcularDistancia_bounded_haversine [of _ _ _ _ "- 22.9068" "- 43.1729" "- 22.5" "- 43.1729"]
      calcularDistancia_bounded_haversine [of _ _ _ _ "- 22.9068" "- 43.1729" "- 22.91" "- 43.1729"]
      1 2
    by blast
qed

section \<open>Normalization\<close>

subsection \<open>Reading numerals\<close>




















subsection \<open>The fields of a normalized record\<close>



lemma normalizeBusData_unchanged:
  "coordinate (field bus ''latitude'') = None \<or> coordinate (field bus ''longitude'') = None \<or>
   timeClip (parseInt E (field bus ''datahora'')) = NaN \<Longrightarrow>
   normalizeBusData E bus = bus"
  by (auto simp: normalizeBusData_def split: option.splits)

subsection \<open>What normalization guarantees\<close>









section \<open>Fetching the active vehicles\<close>

text \<open>A value without fields never passes the test, and is returned as it came in.\<close>

lemma emRota_no_fields: "\<not> emRota E agora []"
  by (simp add: emRota_def field_def jgt_def Let_def)

lemma normalizeBusData_no_fields: "normalizeBusData E [] = []"
  by (simp add: normalizeBusData_def field_def parseInt_def parseIntStr_def trimStart_def
        isWhite_def isRadixDigit_def digitOf_def Let_def)

text \<open>
  The loop ends in an exception exactly when the array holds \<open>null\<close>. Otherwise it
  returns, in order, the normalized records that pass the test.
\<close>

lemma activeLoop_records:
  "Null \<notin> set data \<Longrightarrow>
   activeLoop E agora data acc =
     Some (acc @ filter (emRota E agora) (map (normalizeBusData E) (records data)))"
proof (induction data arbitrary: acc)
  case Nil
  show ?case by simp
next
  case (Cons x data)
  then show ?case
    by (cases x) simp_all
qed

lemma activeLoop_null: "Null \<in> set data \<Longrightarrow> activeLoop E agora data acc = None"
proof (induction data arbitrary: acc)
  case Nil
  then show ?case by simp
next
  case (Cons x data)
  then show ?case
    by (cases x) auto
qed



lemma cacheSet_room:
  "length c < maxKeys \<Longrightarrow>
   cacheSet c now k v ttl = Some (AList.update k \<lparr>content = v, expires = now + ttl * 1000\<rparr> c)"
  by (simp add: cacheSet_def)

lemma length_update_le: "length (AList.update k v al) \<le> Suc (length al)"
  by (induction al) auto

lemma tryFetch_array:
  assumes room: "length (generalCache st) + 1 < maxKeys"
    and loop: "activeLoop E now data [] = Some activeBuses"
  shows "tryFetch E st now (Response (Array data)) =
     (Some activeBuses,
      updateLineIndex E
        (st\<lparr>generalCache :=
             AList.update staleKey \<lparr>content = activeBuses, expires = now + 1800000\<rparr>
               (AList.update cacheKey \<lparr>content = activeBuses, expires = now + 300000\<rparr>
                 (generalCache st)),
           lastFetchTime := Some now\<rparr>) now activeBuses)"
proof -
  let ?c1 = "AList.update cacheKey \<lparr>content = activeBuses, expires = now + 300000\<rparr> (generalCache st)"
  have 1: "setGeneral st now cacheKey activeBuses (Some 300) = Some (st\<lparr>generalCache := ?c1\<rparr>)"
    using room by (simp add: setGeneral_def ttlOr_def cacheSet_room)
  have "length ?c1 \<le> Suc (length (generalCache st))"
    by (rule length_update_le)
  with room have "length ?c1 < maxKeys"
    by linarith
  then have 2: "setGeneral (st\<lparr>generalCache := ?c1\<rparr>) now staleKey activeBuses (Some 1800) =
      Some (st\<lparr>generalCache := AList.update staleKey \<lparr>content = activeBuses, expires = now + 1800000\<rparr> ?c1\<rparr>)"
    by (simp add: setGeneral_def ttlOr_def cacheSet_room)
  show ?thesis
    by (simp add: tryFetch_def loop 1 2)
qed

lemma getAllBusData_fetched:
  assumes miss: "getGeneral st now cacheKey = None"
    and free: "\<not> throttled st now \<or> getGeneral st now staleKey = None"
    and room: "length (generalCache st) + 1 < maxKeys"
    and objs: "Null \<notin> set data"
  shows "fst (getAllBusData E st now (Response (Array data))) =
         Inr (filter (emRota E now) (map (normalizeBusData E) (records data)))"
proof -
  have "activeLoop E now data [] =
      Some (filter (emRota E now) (map (normalizeBusData E) (records data)))"
    using activeLoop_records [OF objs, of E now "[]"] by simp
  from tryFetch_array [OF room this] show ?thesis
    using miss free by (auto simp: getAllBusData_def)
qed




section \<open>The failure policy of the fetch\<close>

lemma keys_differ: "cacheKey \<noteq> staleKey"
  by (simp add: cacheKey_def staleKey_def)

lemma generalInv_length: "generalInv st \<Longrightarrow> length (generalCache st) \<le> 2"
proof -
  assume i: "generalInv st"
  then have d: "distinct (map fst (generalCache st))"
    and s: "set (map fst (generalCache st)) \<subseteq> {cacheKey, staleKey}"
    by (auto simp: generalInv_def list_all_iff)
  have "length (generalCache st) = card (set (map fst (generalCache st)))"
    using distinct_card [OF d] by simp
  also have "\<dots> \<le> card {cacheKey, staleKey}"
    by (rule card_mono [OF _ s]) simp
  also have "\<dots> \<le> 2"
    by (simp add: card_insert_if)
  finally show ?thesis .
qed

lemma generalInv_room: "generalInv st \<Longrightarrow> length (generalCache st) + 1 < maxKeys"
  using generalInv_length [of st] by (simp add: maxKeys_def)



lemma generalInv_clearAll: "generalInv (clearAll st)"
  by (simp add: generalInv_def clearAll_def)

lemma generalInv_clearCaches: "generalInv st \<Longrightarrow> generalInv (clearCaches st)"
  by (simp add: generalInv_def clearCaches_def deleteGeneral_def cacheDel_def
        distinct_delete delete_conv keys_differ delete_keys list_all_iff distinct_removeAll)

lemma tryFetch_bad:
  "up = Unreachable \<or> up = Response NotArray \<or> (\<exists>data. up = Response (Array data) \<and> Null \<in> set data) \<Longrightarrow>
   tryFetch E st now up = (None, st)"
  by (auto simp: tryFetch_def activeLoop_null)

lemma upstream_cases:
  "(up = Unreachable \<or> up = Response NotArray \<or> (\<exists>data. up = Response (Array data) \<and> Null \<in> set data)) \<or>
   (\<exists>data. up = Response (Array data) \<and> Null \<notin> set data)"
proof (cases up)
  case Unreachable
  then show ?thesis by simp
next
  case (Response b)
  then show ?thesis by (cases b) auto
qed

lemma generalInv_getAllBusData:
  assumes inv: "generalInv st"
  shows "generalInv (snd (getAllBusData E st now up))"
proof -
  consider (bad) "up = Unreachable \<or> up = Response NotArray \<or>
                  (\<exists>data. up = Response (Array data) \<and> Null \<in> set data)"
    | (arr) data where "up = Response (Array data)" "Null \<notin> set data"
    using upstream_cases [of up] by blast
  then show ?thesis
  proof cases
    case bad
    then show ?thesis
      using inv by (auto simp: getAllBusData_def tryFetch_bad split: option.splits)
  next
    case arr
    note t = tryFetch_array [OF generalInv_room [OF inv] activeLoop_records [OF arr(2), of E now "[]"]]
    have "generalInv (snd (tryFetch E st now (Response (Array data))))"
      using inv
      by (simp add: t updateLineIndex_def)
         (simp add: generalInv_def distinct_update update_conv keys_differ update_keys list_all_iff)
    then show ?thesis
      using inv arr by (auto simp: getAllBusData_def t split: option.splits)
  qed
qed




text \<open>The two queries keep the general store as \<open>getAllBusData\<close> leaves it.\<close>

lemma generalInv_same_store:
  "generalCache st' = generalCache st \<Longrightarrow> generalInv st \<Longrightarrow> generalInv st'"
  by (simp add: generalInv_def cong: option.case_cong)

lemma getBusByLine_general:
  "generalCache (snd (getBusByLine E st now up linha)) = generalCache st \<or>
   generalCache (snd (getBusByLine E st now up linha)) =
     generalCache (snd (getAllBusData E st now up))"
proof -
  obtain r st1 where g: "getAllBusData E st now up = (r, st1)"
    by (cases "getAllBusData E st now up")
  show ?thesis
    by (cases r)
       (simp_all add: getBusByLine_def Let_def g setLine_def cacheSet_def split: option.splits)
qed

lemma getBusByPosition_general:
  "generalCache (snd (getBusByPosition E st now up lat lon raioKm)) = generalCache st \<or>
   generalCache (snd (getBusByPosition E st now up lat lon raioKm)) =
     generalCache (snd (getAllBusData E st now up))"
proof -
  obtain r st1 where g: "getAllBusData E st now up = (r, st1)"
    by (cases "getAllBusData E st now up")
  show ?thesis
    by (cases r)
       (simp_all add: getBusByPosition_def Let_def g setPosition_def cacheSet_def split: option.splits)
qed

lemma generalInv_getBusByLine:
  "generalInv st \<Longrightarrow> generalInv (snd (getBusByLine E st now up linha))"
  using getBusByLine_general [of E st now up linha] generalInv_getAllBusData [of st E now up]
  by (auto intro: generalInv_same_store)

lemma generalInv_getBusByPosition:
  "generalInv st \<Longrightarrow> generalInv (snd (getBusByPosition E st now up lat lon raioKm))"
  using getBusByPosition_general [of E st now up lat lon raioKm]
    generalInv_getAllBusData [of st E now up]
  by (auto intro: generalInv_same_store)

section \<open>Queries by line\<close>

lemma includesStr_empty: "includesStr s []"
  by (cases s) simp_all

lemma matchLoop_blank: "matchLoop [] idx acc = acc @ concat (map snd idx)"
  by (induction idx arbitrary: acc) (auto simp: includesStr_empty)

lemma indexLoop_no_blank: "map_of (indexLoop E buses []) [] = None"
  by (simp add: indexLoop_map_of image_iff) (metis lineKey_nonempty)

lemma getAllBusData_lineCache: "lineCache (snd (getAllBusData E st now up)) = lineCache st"
  by (auto simp: getAllBusData_def tryFetch_def setGeneral_def updateLineIndex_def Let_def
      split: option.splits upstream.splits body.splits)

lemma getAllBusData_positionCache:
  "positionCache (snd (getAllBusData E st now up)) = positionCache st"
  by (auto simp: getAllBusData_def tryFetch_def setGeneral_def updateLineIndex_def Let_def
      split: option.splits upstream.splits body.splits)

lemma getAllBusData_no_blank:
  "map_of (lineIndex st) [] = None \<Longrightarrow>
   map_of (lineIndex (snd (getAllBusData E st now up))) [] = None"
  by (auto simp: getAllBusData_def tryFetch_def setGeneral_def updateLineIndex_def Let_def
      indexLoop_no_blank split: option.splits upstream.splits body.splits)

lemma setLine_room:
  "length (lineCache st) < maxKeys \<Longrightarrow> \<exists>st'. setLine st now k v t = Some st'"
  by (simp add: setLine_def cacheSet_def)

text \<open>
  C9. Take a query whose trimmed, lower-cased form is empty, such as a single space, which
  the validation of the route lets through. When \<open>getBusByLine\<close> gets past its cache (no
  live entry for the query, room for one more) the empty string is no key of the index, as
  is the case of every index that \<open>updateLineIndex\<close> builds, so the fallback runs and
  every key contains the empty string: the call returns the buckets of all indexed lines,
  one after the other. Only when the index holds no vehicle does the call refresh through
  \<open>getAllBusData\<close>; it then fails as that call fails, or returns all vehicles of the index
  as it is afterwards.
\<close>

theorem getBusByLine_blank_query:
  assumes blank: "toLowerCase (trim linha) = []"
    and miss: "getLine st now (lineCacheKey linha) = None"
    and room: "length (lineCache st) < maxKeys"
    and keys: "map_of (lineIndex st) [] = None"
  shows "fst (getBusByLine E st now up linha) =
           (if concat (map snd (lineIndex st)) \<noteq> [] then Inr (concat (map snd (lineIndex st)))
            else case getAllBusData E st now up of
                   (Inl e, st1) \<Rightarrow> Inl e
                 | (Inr allData, st1) \<Rightarrow> Inr (concat (map snd (lineIndex st1)))) \<and>
         map_of (lineIndex (updateLineIndex E st' now' buses)) [] = None \<and>
         linhaSchema '' '' \<and> toLowerCase (trim '' '') = []"
proof (intro conjI)
  show "fst (getBusByLine E st now up linha) =
           (if concat (map snd (lineIndex st)) \<noteq> [] then Inr (concat (map snd (lineIndex st)))
            else case getAllBusData E st now up of
                   (Inl e, st1) \<Rightarrow> Inl e
                 | (Inr allData, st1) \<Rightarrow> Inr (concat (map snd (lineIndex st1))))"
  proof (cases "concat (map snd (lineIndex st)) = []")
    case False
    obtain st2 where "setLine st now (lineCacheKey linha) (concat (map snd (lineIndex st))) (Some 120) = Some st2"
      using setLine_room [OF room] by blast
    then show ?thesis
      using False by (auto simp: getBusByLine_def Let_def miss blank keys matchLoop_blank)
  next
    case True
    obtain r st1 where g: "getAllBusData E st now up = (r, st1)"
      by (cases "getAllBusData E st now up")
    have k1: "map_of (lineIndex st1) [] = None"
      using getAllBusData_no_blank [OF keys, of E now up] by (simp add: g)
    have "length (lineCache st1) < maxKeys"
      using getAllBusData_lineCache [of E st now up] room by (simp add: g)
    then obtain st2 where "setLine st1 now (lineCacheKey linha) (concat (map snd (lineIndex st1))) (Some 120) = Some st2"
      using setLine_room by blast
    then show ?thesis
      using True
      by (cases r)
         (auto simp: getBusByLine_def Let_def miss blank keys matchLoop_blank g lookupLine_def k1)
  qed
next
  show "map_of (lineIndex (updateLineIndex E st' now' buses)) [] = None"
    by (simp add: updateLineIndex_def indexLoop_no_blank)
next
  show "linhaSchema '' ''"
    by (simp add: linhaSchema_def)
next
  show "toLowerCase (trim '' '') = []"
    by (simp add: toLowerCase_def trim_def isWhite_def)
qed

text \<open>
  After a fetch that has indexed the lines 415 and 371, the query \<open>" "\<close> returns the
  vehicles of both lines, with no call to the feed.
\<close>

theorem getBusByLine_blank_query_witness:
  "toLowerCase (trim '' '') = [] \<and>
   getLine (snd (getAllBusData refEngine initialState 1700000000000
       (Response (Array [Record (feedRecord ''-22,9068'' ''-43,1729'' ''1700000000000'' ''5'' ''415''),
                         Record (feedRecord ''-22,9100'' ''-43,2000'' ''1700000000000'' ''7'' ''371'')]))))
     1700000001000 (lineCacheKey '' '') = None \<and>
   fst (getBusByLine refEngine
     (snd (getAllBusData refEngine initialState 1700000000000
       (Response (Array [Record (feedRecord ''-22,9068'' ''-43,1729'' ''1700000000000'' ''5'' ''415''),
                         Record (feedRecord ''-22,9100'' ''-43,2000'' ''1700000000000'' ''7'' ''371'')]))))
     1700000001000 Unreachable '' '') =
     Inr [normalizeBusData refEngine (feedRecord ''-22,9068'' ''-43,1729'' ''1700000000000'' ''5'' ''415''),
          normalizeBusData refEngine (feedRecord ''-22,9100'' ''-43,2000'' ''1700000000000'' ''7'' ''371'')]"
proof -
  let ?st = "snd (getAllBusData refEngine initialState 1700000000000
       (Response (Array [Record (feedRecord ''-22,9068'' ''-43,1729'' ''1700000000000'' ''5'' ''415''),
                         Record (feedRecord ''-22,9100'' ''-43,2000'' ''1700000000000'' ''7'' ''371'')])))"
  have h1: "toLowerCase (trim '' '') = []"
    by code_simp
  have h2: "getLine ?st 1700000001000 (lineCacheKey '' '') = None"
    by code_simp
  have h3: "length (lineCache ?st) < maxKeys"
    by (simp add: getAllBusData_lineCache initialState_def maxKeys_def)
  have h4: "map_of (lineIndex ?st) [] = None"
    by (rule getAllBusData_no_blank) (simp add: initialState_def)
  have e: "concat (map snd (lineIndex ?st)) =
     [normalizeBusData refEngine (feedRecord ''-22,9068'' ''-43,1729'' ''1700000000000'' ''5'' ''415''),
      normalizeBusData refEngine (feedRecord ''-22,9100'' ''-43,2000'' ''1700000000000'' ''7'' ''371'')]"
    by code_simp
  have "fst (getBusByLine refEngine ?st 1700000001000 Unreachable '' '') =
      Inr (concat (map snd (lineIndex ?st)))"
    using getBusByLine_blank_query [OF h1 h2 h3 h4, of refEngine Unreachable] e
    by (simp only: list.simps if_True if_False simp_thms)
  then show ?thesis
    using h1 h2 e by (simp only: simp_thms)
qed

section \<open>Clearing the caches\<close>

text \<open>
  C6, the code at a failing input. \<open>clearCaches\<close> leaves the line store and the position
  store as they are, in every state. After the query for line 415 has cached its result,
  \<open>clearCaches\<close> does not remove the entry, and the same query, one second later and with
  a feed that now delivers no vehicle, is still answered from it.
\<close>

theorem clearCaches_keeps_query_caches:
  "lineCache (clearCaches st) = lineCache st \<and>
   positionCache (clearCaches st) = positionCache st \<and>
   getLine (clearCaches (snd (getBusByLine refEngine initialState 1700000000000
       (Response (Array [Record (feedRecord ''-22,9068'' ''-43,1729'' ''1700000000000'' ''5'' ''415'')]))
       ''415''))) 1700000001000 (lineCacheKey ''415'') =
     Some [normalizeBusData refEngine (feedRecord ''-22,9068'' ''-43,1729'' ''1700000000000'' ''5'' ''415'')] \<and>
   fst (getBusByLine refEngine
     (clearCaches (snd (getBusByLine refEngine initialState 1700000000000
       (Response (Array [Record (feedRecord ''-22,9068'' ''-43,1729'' ''1700000000000'' ''5'' ''415'')]))
       ''415'')))
     1700000001000 (Response (Array [])) ''415'') =
     Inr [normalizeBusData refEngine (feedRecord ''-22,9068'' ''-43,1729'' ''1700000000000'' ''5'' ''415'')]"
proof (intro conjI)
  show "lineCache (clearCaches st) = lineCache st"
    by (simp add: clearCaches_def deleteGeneral_def)
  show "positionCache (clearCaches st) = positionCache st"
    by (simp add: clearCaches_def deleteGeneral_def)
  show "getLine (clearCaches (snd (getBusByLine refEngine initialState 1700000000000
       (Response (Array [Record (feedRecord ''-22,9068'' ''-43,1729'' ''1700000000000'' ''5'' ''415'')]))
       ''415''))) 1700000001000 (lineCacheKey ''415'') =
     Some [normalizeBusData refEngine (feedRecord ''-22,9068'' ''-43,1729'' ''1700000000000'' ''5'' ''415'')]"
    by code_simp
  show "fst (getBusByLine refEngine
     (clearCaches (snd (getBusByLine refEngine initialState 1700000000000
       (Response (Array [Record (feedRecord ''-22,9068'' ''-43,1729'' ''1700000000000'' ''5'' ''415'')]))
       ''415'')))
     1700000001000 (Response (Array [])) ''415'') =
     Inr [normalizeBusData refEngine (feedRecord ''-22,9068'' ''-43,1729'' ''1700000000000'' ''5'' ''415'')]"
    by code_simp
qed

lemma clearCaches_general_empty:
  assumes "generalInv st"
  shows "getGeneral (clearCaches st) now k = None"
proof -
  have "map_of (generalCache st) k = None" if "k \<noteq> cacheKey" "k \<noteq> staleKey"
    using assms that by (auto simp: generalInv_def list_all_iff map_of_eq_None_iff)
  then have "map_of (generalCache (clearCaches st)) k = None"
    by (auto simp: clearCaches_def deleteGeneral_def cacheDel_def delete_conv)
  then show ?thesis
    by (simp add: getGeneral_def cacheGet_def)
qed

text \<open>
  What \<open>clearCaches\<close> does achieve, in a state that the service reaches: the general
  store answers no key, the index is empty, and the next \<open>getAllBusData\<close> fetches and
  rebuilds the index from the active vehicles of the array.
\<close>

lemma clearCaches_forces_fetch:
  assumes inv: "generalInv st"
    and objs: "Null \<notin> set data"
  shows "getGeneral (clearCaches st) now k = None \<and>
         lineIndex (clearCaches st) = [] \<and>
         fst (getAllBusData E (clearCaches st) now (Response (Array data))) =
           Inr (filter (emRota E now) (map (normalizeBusData E) (records data))) \<and>
         lineIndex (snd (getAllBusData E (clearCaches st) now (Response (Array data)))) =
           indexLoop E (filter (emRota E now) (map (normalizeBusData E) (records data))) []"
proof -
  note e = clearCaches_general_empty [OF inv]
  note room = generalInv_room [OF generalInv_clearCaches [OF inv]]
  have l: "activeLoop E now data [] =
      Some (filter (emRota E now) (map (normalizeBusData E) (records data)))"
    using activeLoop_records [OF objs, of E now "[]"] by simp
  have "lineIndex (clearCaches st) = []"
    by (simp add: clearCaches_def)
  moreover have "fst (getAllBusData E (clearCaches st) now (Response (Array data))) =
      Inr (filter (emRota E now) (map (normalizeBusData E) (records data)))"
    using getAllBusData_fetched [OF e [of now cacheKey] _ room objs, of E] e [of now staleKey]
    by simp
  moreover have "lineIndex (snd (getAllBusData E (clearCaches st) now (Response (Array data)))) =
      indexLoop E (filter (emRota E now) (map (normalizeBusData E) (records data))) []"
    by (simp add: getAllBusData_def e tryFetch_array [OF room l] updateLineIndex_def)
  ultimately show ?thesis
    using e by simp
qed

section \<open>Queries by position\<close>

lemma jle_trans: "jle a b \<Longrightarrow> jle b c \<Longrightarrow> jle a c"
  by (cases a; cases b; cases c) auto

lemma dentroDoRaioEmRota_mono:
  "jle r1 r2 \<Longrightarrow> dentroDoRaioEmRota E agora lat lon r1 b \<Longrightarrow>
   dentroDoRaioEmRota E agora lat lon r2 b"
  by (auto simp: dentroDoRaioEmRota_def Let_def split: if_splits dest: jle_trans)

lemma dentroDoRaioEmRota_distance:
  "dentroDoRaioEmRota E agora lat lon r b \<Longrightarrow>
   jle (calcularDistancia lat lon (toNumber (field b ''latitude'')) (toNumber (field b ''longitude''))) r"
  by (auto simp: dentroDoRaioEmRota_def Let_def split: if_splits)

lemma filter_mono_subseq:
  "(\<And>x. P x \<Longrightarrow> Q x) \<Longrightarrow> subseq (filter P xs) (filter Q xs)"
proof -
  assume pq: "\<And>x. P x \<Longrightarrow> Q x"
  have "filter P xs = filter P (filter Q xs)"
    using pq by (auto intro: filter_cong)
  then show ?thesis
    by (metis subseq_filter_left)
qed

lemma setPosition_room:
  "length (positionCache st) < maxKeys \<Longrightarrow> \<exists>st'. setPosition st now k v t = Some st'"
  by (simp add: setPosition_def cacheSet_def)

lemma getBusByPosition_miss:
  assumes miss: "getPosition st now (positionCacheKey E lat lon r) = None"
    and all: "fst (getAllBusData E st now up) = Inr allData"
    and room: "length (positionCache st) < maxKeys"
  shows "fst (getBusByPosition E st now up lat lon r) =
         Inr (filter (dentroDoRaioEmRota E now lat lon r) allData)"
proof -
  obtain st1 where g: "getAllBusData E st now up = (Inr allData, st1)"
    using all by (cases "getAllBusData E st now up") simp
  have "length (positionCache st1) < maxKeys"
    using getAllBusData_positionCache [of E st now up] room by (simp add: g)
  then obtain st2 where
    "setPosition st1 now (positionCacheKey E lat lon r)
       (filter (dentroDoRaioEmRota E now lat lon r) allData) (Some 120) = Some st2"
    using setPosition_room by blast
  then show ?thesis
    by (simp add: getBusByPosition_def Let_def miss g)
qed

text \<open>
  C7. Fix the centre, the moment and the vehicles that \<open>getAllBusData\<close> returns, and let
  neither radius have a live entry in the position store (which has room). If
  \<open>r1 \<le> r2\<close> then the records returned for \<open>r1\<close> are returned for \<open>r2\<close>, in the same
  order: the result for \<open>r1\<close> is a subsequence of the result for \<open>r2\<close> and no longer than
  it. Every record returned lies within the radius asked for, by \<open>calcularDistancia\<close>.
\<close>

theorem getBusByPosition_monotone:
  assumes all: "fst (getAllBusData E st now up) = Inr allData"
    and le: "jle r1 r2"
    and miss1: "getPosition st now (positionCacheKey E lat lon r1) = None"
    and miss2: "getPosition st now (positionCacheKey E lat lon r2) = None"
    and room: "length (positionCache st) < maxKeys"
  shows "\<exists>xs1 xs2.
           fst (getBusByPosition E st now up lat lon r1) = Inr xs1 \<and>
           fst (getBusByPosition E st now up lat lon r2) = Inr xs2 \<and>
           subseq xs1 xs2 \<and> set xs1 \<subseteq> set xs2 \<and> length xs1 \<le> length xs2 \<and>
           (\<forall>b \<in> set xs1.
              jle (calcularDistancia lat lon (toNumber (field b ''latitude''))
                     (toNumber (field b ''longitude''))) r1) \<and>
           (\<forall>b \<in> set xs2.
              jle (calcularDistancia lat lon (toNumber (field b ''latitude''))
                     (toNumber (field b ''longitude''))) r2)"
proof -
  let ?xs1 = "filter (dentroDoRaioEmRota E now lat lon r1) allData"
  let ?xs2 = "filter (dentroDoRaioEmRota E now lat lon r2) allData"
  have s: "subseq ?xs1 ?xs2"
    by (rule filter_mono_subseq) (rule dentroDoRaioEmRota_mono [OF le])
  have "set ?xs1 \<subseteq> set ?xs2"
    using dentroDoRaioEmRota_mono [OF le] by auto
  moreover have "length ?xs1 \<le> length ?xs2"
    using s by (rule list_emb_length)
  moreover have "\<forall>b \<in> set ?xs1.
      jle (calcularDistancia lat lon (toNumber (field b ''latitude''))
             (toNumber (field b ''longitude''))) r1"
    using dentroDoRaioEmRota_distance by auto
  moreover have "\<forall>b \<in> set ?xs2.
      jle (calcularDistancia lat lon (toNumber (field b ''latitude''))
             (toNumber (field b ''longitude''))) r2"
    using dentroDoRaioEmRota_distance by auto
  ultimately show ?thesis
    using s getBusByPosition_miss [OF miss1 all room] getBusByPosition_miss [OF miss2 all room]
    by blast
qed

lemma calcularDistancia_self:
  "calcularDistancia (Finite a) (Finite b) (Finite a) (Finite b) = Finite 0"
proof -
  have "\<not> dbl 0.1 < 0"
    by (simp add: dbl_tenth)
  then show ?thesis
    by (simp add: calcularDistancia_finite haversineKm_def dbl_def)
qed

lemma dentroDoRaioEmRotaI:
  "truthy (field b ''latitude'') \<Longrightarrow> truthy (field b ''longitude'') \<Longrightarrow>
   jle (calcularDistancia lat lon (toNumber (field b ''latitude'')) (toNumber (field b ''longitude''))) r \<Longrightarrow>
   emRota E agora b \<Longrightarrow> dentroDoRaioEmRota E agora lat lon r b"
  by (simp add: dentroDoRaioEmRota_def)

lemma dentroDoRaioEmRota_outside:
  "\<not> jle (calcularDistancia lat lon (toNumber (field b ''latitude'')) (toNumber (field b ''longitude''))) r \<Longrightarrow>
   \<not> dentroDoRaioEmRota E agora lat lon r b"
  by (simp add: dentroDoRaioEmRota_def)

lemma calcularDistancia_far_lat:
  "dbl 0.1 < \<bar>dbl (dbl c - dbl a)\<bar> \<Longrightarrow>
   calcularDistancia (Finite a) (Finite b) (Finite c) (Finite d) = PInf"
  by (simp add: calcularDistancia_finite)

text \<open>
  Two vehicles, one at the centre and one 0.4 degrees of latitude away: both radii return
  the first only.
\<close>

theorem getBusByPosition_monotone_witness:
  "fst (getAllBusData refEngine initialState 1700000000000
     (Response (Array [Record (feedRecord ''-22,9068'' ''-43,1729'' ''1700000000000'' ''5'' ''415''),
                       Record (feedRecord ''-22,5000'' ''-43,1729'' ''1700000000000'' ''7'' ''371'')]))) =
     Inr [normalizeBusData refEngine (feedRecord ''-22,9068'' ''-43,1729'' ''1700000000000'' ''5'' ''415''),
          normalizeBusData refEngine (feedRecord ''-22,5000'' ''-43,1729'' ''1700000000000'' ''7'' ''371'')] \<and>
   jle (Finite 1) (Finite 5) \<and>
   getPosition initialState 1700000000000
     (positionCacheKey refEngine (Finite (- 22.9068)) (Finite (- 43.1729)) (Finite 1)) = None \<and>
   getPosition initialState 1700000000000
     (positionCacheKey refEngine (Finite (- 22.9068)) (Finite (- 43.1729)) (Finite 5)) = None \<and>
   length (positionCache initialState) < maxKeys \<and>
   (\<exists>xs1 xs2.
      fst (getBusByPosition refEngine initialState 1700000000000
        (Response (Array [Record (feedRecord ''-22,9068'' ''-43,1729'' ''1700000000000'' ''5'' ''415''),
                          Record (feedRecord ''-22,5000'' ''-43,1729'' ''1700000000000'' ''7'' ''371'')]))
        (Finite (- 22.9068)) (Finite (- 43.1729)) (Finite 1)) = Inr xs1 \<and>
      fst (getBusByPosition refEngine initialState 1700000000000
        (Response (Array [Record (feedRecord ''-22,9068'' ''-43,1729'' ''1700000000000'' ''5'' ''415''),
                          Record (feedRecord ''-22,5000'' ''-43,1729'' ''1700000000000'' ''7'' ''371'')]))
        (Finite (- 22.9068)) (Finite (- 43.1729)) (Finite 5)) = Inr xs2 \<and>
      subseq xs1 xs2 \<and> length xs1 \<le> length xs2) \<and>
   fst (getBusByPosition refEngine initialState 1700000000000
        (Response (Array [Record (feedRecord ''-22,9068'' ''-43,1729'' ''1700000000000'' ''5'' ''415''),
                          Record (feedRecord ''-22,5000'' ''-43,1729'' ''1700000000000'' ''7'' ''371'')]))
        (Finite (- 22.9068)) (Finite (- 43.1729)) (Finite 1)) =
     Inr [normalizeBusData refEngine (feedRecord ''-22,9068'' ''-43,1729'' ''1700000000000'' ''5'' ''415'')]"
proof -
  let ?up = "Response (Array [Record (feedRecord ''-22,9068'' ''-43,1729'' ''1700000000000'' ''5'' ''415''),
                       Record (feedRecord ''-22,5000'' ''-43,1729'' ''1700000000000'' ''7'' ''371'')])"
  let ?n1 = "normalizeBusData refEngine (feedRecord ''-22,9068'' ''-43,1729'' ''1700000000000'' ''5'' ''415'')"
  let ?n2 = "normalizeBusData refEngine (feedRecord ''-22,5000'' ''-43,1729'' ''1700000000000'' ''7'' ''371'')"
  let ?lat = "Finite (- 22.9068)" and ?lon = "Finite (- 43.1729)"
  have h1: "fst (getAllBusData refEngine initialState 1700000000000 ?up) = Inr [?n1, ?n2]"
    by code_simp
  have h2: "jle (Finite 1) (Finite 5)"
    by simp
  have h3: "getPosition initialState 1700000000000 k = None" for k
    by (simp add: getPosition_def cacheGet_def initialState_def)
  have h4: "length (positionCache initialState) < maxKeys"
    by (simp add: initialState_def maxKeys_def)
  have f1: "toNumber (field ?n1 ''latitude'') = Finite (- 22.9068)"
           "toNumber (field ?n1 ''longitude'') = Finite (- 43.1729)"
           "truthy (field ?n1 ''latitude'')" "truthy (field ?n1 ''longitude'')"
           "emRota refEngine 1700000000000 ?n1"
    by code_simp+
  have f2: "toNumber (field ?n2 ''latitude'') = Finite (- 22.5)"
           "toNumber (field ?n2 ''longitude'') = Finite (- 43.1729)"
    by code_simp+
  have d1: "dentroDoRaioEmRota refEngine 1700000000000 ?lat ?lon (Finite 1) ?n1"
    by (rule dentroDoRaioEmRotaI) (simp_all only: f1 calcularDistancia_self, simp)
  have "dbl 0.1 < \<bar>dbl (dbl (- 22.5) - dbl (- 22.9068))\<bar>"
    by code_simp
  then have "calcularDistancia ?lat ?lon (Finite (- 22.5)) (Finite (- 43.1729)) = PInf"
    by (rule calcularDistancia_far_lat)
  then have d2: "\<not> dentroDoRaioEmRota refEngine 1700000000000 ?lat ?lon (Finite 1) ?n2"
    by (intro dentroDoRaioEmRota_outside) (simp only: f2, simp)
  have r1: "fst (getBusByPosition refEngine initialState 1700000000000 ?up ?lat ?lon (Finite 1)) = Inr [?n1]"
    using getBusByPosition_miss [OF h3 h1 h4, of ?lat ?lon "Finite 1"] d1 d2
    by (simp only: filter.simps if_True if_False)
  show ?thesis
    using getBusByPosition_monotone [OF h1 h2 h3 h3 h4, of ?lat ?lon] h1 h2 h3 h4 r1
    by blast
qed

end
